theory Spec2Isabelle
  imports Main "HOL-Library.Sublist" "HOL-Library.AList"
begin

section \<open>Python strings\<close>

text \<open>
  A Python \<^verbatim>\<open>str\<close> is a sequence of code points. This development covers the
  code points U+0000 .. U+00FF (ISO 8859-1, which holds the accented letters of the
  French labels), one \<^typ>\<open>char\<close> per code point: \<open>CHR 0xE9\<close> is the letter
  e-acute, and \<open>length\<close> counts code points as Python's \<^verbatim>\<open>len\<close> does.
\<close>

definition ord :: "char \<Rightarrow> nat" where
  "ord c = of_char c"

text \<open>\<^verbatim>\<open>str.isspace\<close>, the characters removed by \<^verbatim>\<open>str.strip()\<close> and matched by
  \<^verbatim>\<open>\s\<close>: TAB, LF, VT, FF, CR, FS, GS, RS, US, SPACE, NEL and NBSP.\<close>

definition isspace :: "char \<Rightarrow> bool" where
  "isspace c = (ord c \<in> {9, 10, 11, 12, 13, 28, 29, 30, 31, 32, 133, 160})"

text \<open>The decimal digits, matched by \<^verbatim>\<open>\d\<close> and read by \<^verbatim>\<open>int\<close>.\<close>

definition isdigit :: "char \<Rightarrow> bool" where
  "isdigit c = (48 \<le> ord c \<and> ord c \<le> 57)"

definition digit_val :: "char \<Rightarrow> nat" where
  "digit_val c = ord c - 48"

definition lstrip :: "string \<Rightarrow> string" where
  "lstrip s = dropWhile isspace s"

definition rstrip :: "string \<Rightarrow> string" where
  "rstrip s = rev (dropWhile isspace (rev s))"

definition strip :: "string \<Rightarrow> string" where
  "strip s = rstrip (lstrip s)"

text \<open>Simple case mapping of one code point: the upper-case letters \<open>A-Z\<close> and
  U+00C0 .. U+00DE (without the multiplication sign U+00D7) are 32 below their
  lower-case letters, which differ from them in one bit.\<close>

definition is_upper_letter :: "char \<Rightarrow> bool" where
  "is_upper_letter c =
     ((65 \<le> ord c \<and> ord c \<le> 90) \<or> (192 \<le> ord c \<and> ord c \<le> 222 \<and> ord c \<noteq> 215))"

definition is_lower_letter :: "char \<Rightarrow> bool" where
  "is_lower_letter c =
     ((97 \<le> ord c \<and> ord c \<le> 122) \<or> (224 \<le> ord c \<and> ord c \<le> 254 \<and> ord c \<noteq> 247))"

definition add32 :: "char \<Rightarrow> char" where
  "add32 c = (case c of Char b0 b1 b2 b3 b4 b5 b6 b7 \<Rightarrow> Char b0 b1 b2 b3 b4 True b6 b7)"

definition sub32 :: "char \<Rightarrow> char" where
  "sub32 c = (case c of Char b0 b1 b2 b3 b4 b5 b6 b7 \<Rightarrow> Char b0 b1 b2 b3 b4 False b6 b7)"

definition tolower :: "char \<Rightarrow> char" where
  "tolower c = (if is_upper_letter c then add32 c else c)"

text \<open>\<^verbatim>\<open>str.upper()\<close>. The sharp s (U+00DF) becomes \<^verbatim>\<open>SS\<close>. The upper-case forms
  of the micro sign (U+00B5) and of y-diaeresis (U+00FF) are code points above U+00FF;
  the two are left as they are here, and no statement below depends on them.\<close>

definition upper_char :: "char \<Rightarrow> string" where
  "upper_char c =
     (if is_lower_letter c then [sub32 c] else if ord c = 223 then ''SS'' else [c])"

definition upper :: "string \<Rightarrow> string" where
  "upper s = concat (map upper_char s)"

text \<open>\<^verbatim>\<open>str.title()\<close>: a cased character after a cased one is lowered, any other is
  put in title case. The cased code points are the letters, the ordinal indicators
  U+00AA and U+00BA, the micro sign, the sharp s and y-diaeresis. The sharp s becomes
  \<^verbatim>\<open>Ss\<close>; the micro sign and y-diaeresis are left as they are, as in
  \<^verbatim>\<open>str.upper()\<close>. The patterns of the text field extractor capture neither.\<close>

definition is_cased :: "char \<Rightarrow> bool" where
  "is_cased c =
     (is_upper_letter c \<or> is_lower_letter c \<or> ord c \<in> {170, 181, 186, 223, 255})"

definition title_char :: "char \<Rightarrow> string" where
  "title_char c =
     (if is_lower_letter c then [sub32 c] else if ord c = 223 then ''Ss'' else [c])"

fun title_from :: "bool \<Rightarrow> string \<Rightarrow> string" where
  "title_from previous_is_cased [] = []"
| "title_from previous_is_cased (c # cs) =
     (if previous_is_cased then [tolower c] else title_char c) @ title_from (is_cased c) cs"

definition title :: "string \<Rightarrow> string" where
  "title s = title_from False s"

text \<open>\<^verbatim>\<open>str.replace(old, new)\<close>: the occurrences of \<open>old\<close> are replaced from left to
  right without overlap; an empty \<open>old\<close> matches before every character and at the end.\<close>

function replace_from :: "string \<Rightarrow> string \<Rightarrow> string \<Rightarrow> string" where
  "replace_from old new s =
     (if old = [] \<or> s = [] then s
      else if prefix old s then new @ replace_from old new (drop (length old) s)
      else hd s # replace_from old new (tl s))"
  by pat_completeness auto
termination
  by (relation "measure (\<lambda>(old, new, s). length s)") (auto simp: neq_Nil_conv)

declare replace_from.simps [simp del]

definition replace :: "string \<Rightarrow> string \<Rightarrow> string \<Rightarrow> string" where
  "replace s old new =
     (if old = [] then new @ concat (map (\<lambda>c. c # new) s) else replace_from old new s)"

text \<open>\<^verbatim>\<open>sub in s\<close> on strings.\<close>

fun contains :: "string \<Rightarrow> string \<Rightarrow> bool" where
  "contains [] sub = (sub = [])"
| "contains (c # cs) sub = (prefix sub (c # cs) \<or> contains cs sub)"

section \<open>Integers and errors\<close>

datatype py_error = ValueError | IndexError | AttributeError | LookupError

text \<open>\<^verbatim>\<open>str(n)\<close> and \<^verbatim>\<open>f"{n}"\<close> for an integer.\<close>

function digits_of :: "nat \<Rightarrow> string" where
  "digits_of n =
     (if n < 10 then [''0123456789'' ! n]
      else digits_of (n div 10) @ [''0123456789'' ! (n mod 10)])"
  by pat_completeness auto
termination
  by (relation "measure id") auto

definition str_of_int :: "int \<Rightarrow> string" where
  "str_of_int i = (if i < 0 then CHR ''-'' # digits_of (nat (- i)) else digits_of (nat i))"

text \<open>\<^verbatim>\<open>int(s)\<close> in base 10: white space around the literal is dropped (here FS, GS, RS
  and US do not count as white space), a sign may follow, and the digits may be
  grouped by single underscores. Anything else raises ValueError.\<close>

definition int_space :: "char \<Rightarrow> bool" where
  "int_space c = (ord c \<in> {9, 10, 11, 12, 13, 32, 133, 160})"

fun int_digits :: "nat \<Rightarrow> string \<Rightarrow> nat option" where
  "int_digits acc [] = Some acc"
| "int_digits acc [c] = (if isdigit c then Some (10 * acc + digit_val c) else None)"
| "int_digits acc (c # d # cs) =
     (if isdigit c then int_digits (10 * acc + digit_val c) (d # cs)
      else if c = CHR ''_'' \<and> isdigit d then int_digits (10 * acc + digit_val d) cs
      else None)"

definition int_literal :: "string \<Rightarrow> nat option" where
  "int_literal s =
     (case s of [] \<Rightarrow> None
      | c # cs \<Rightarrow> if isdigit c then int_digits (digit_val c) cs else None)"

definition py_int :: "string \<Rightarrow> py_error + int" where
  "py_int s =
     (let t = rev (dropWhile int_space (rev (dropWhile int_space s)));
          neg = (t \<noteq> [] \<and> hd t = CHR ''-'');
          body = (if t \<noteq> [] \<and> (hd t = CHR ''-'' \<or> hd t = CHR ''+'') then tl t else t)
      in case int_literal body of
           None \<Rightarrow> Inl ValueError
         | Some n \<Rightarrow> Inr (if neg then - int n else int n))"

section \<open>Regular expressions\<close>

text \<open>
  The fragment of Python's \<^verbatim>\<open>re\<close> syntax that the patterns of the two scripts use.
  A class \<^verbatim>\<open>[...]\<close> is a list of items; a literal character is a class of one item.
  Quantifiers other than \<^verbatim>\<open>?\<close> stand on classes only, groups are never nested in an
  optional or alternative part, and all quantifiers are greedy.
\<close>

datatype citem = Lit char | Rng char char | D | S

datatype rx =
    Eps
  | Cls "citem list"
  | Str string
  | Star "citem list"
  | Plus "citem list"
  | Rep nat "citem list"
  | Opt rx
  | Alt rx rx
  | Seq rx rx
  | Grp rx

fun seq :: "rx list \<Rightarrow> rx" where
  "seq [] = Eps"
| "seq (r # rs) = Seq r (seq rs)"

fun item_match :: "citem \<Rightarrow> char \<Rightarrow> bool" where
  "item_match (Lit a) c = (c = a)"
| "item_match (Rng a b) c = (ord a \<le> ord c \<and> ord c \<le> ord b)"
| "item_match D c = isdigit c"
| "item_match S c = isspace c"

text \<open>With \<^verbatim>\<open>re.IGNORECASE\<close> the members of a class are lowered when the pattern is
  compiled and the subject character is lowered when it is compared. The ranges of
  the patterns lie within \<open>A-Z\<close> or within \<open>a-z\<close>, where lowering the two ends
  lowers the range.\<close>

fun fold_item :: "citem \<Rightarrow> citem" where
  "fold_item (Lit a) = Lit (tolower a)"
| "fold_item (Rng a b) = Rng (tolower a) (tolower b)"
| "fold_item D = D"
| "fold_item S = S"

definition in_cls :: "bool \<Rightarrow> citem list \<Rightarrow> char \<Rightarrow> bool" where
  "in_cls ic items c =
     (if ic then list_ex (\<lambda>it. item_match (fold_item it) (tolower c)) items
      else list_ex (\<lambda>it. item_match it c) items)"

definition chr_eq :: "bool \<Rightarrow> char \<Rightarrow> char \<Rightarrow> bool" where
  "chr_eq ic p c = (if ic then tolower c = tolower p else c = p)"

text \<open>The suffixes left by a literal string, by a greedy class repetition (longest
  repetition first) and by a counted repetition.\<close>

fun str_rest :: "bool \<Rightarrow> string \<Rightarrow> string \<Rightarrow> string option" where
  "str_rest ic [] s = Some s"
| "str_rest ic (p # ps) [] = None"
| "str_rest ic (p # ps) (c # cs) = (if chr_eq ic p c then str_rest ic ps cs else None)"

fun star_rests :: "(char \<Rightarrow> bool) \<Rightarrow> string \<Rightarrow> string list" where
  "star_rests P [] = [[]]"
| "star_rests P (c # cs) = (if P c then star_rests P cs else []) @ [c # cs]"

fun rep_rest :: "(char \<Rightarrow> bool) \<Rightarrow> nat \<Rightarrow> string \<Rightarrow> string option" where
  "rep_rest P 0 s = Some s"
| "rep_rest P (Suc n) [] = None"
| "rep_rest P (Suc n) (c # cs) = (if P c then rep_rest P n cs else None)"

text \<open>A match attempt at the start of \<open>s\<close>: every way the pattern matches a prefix
  of \<open>s\<close>, as the captured groups and the rest of \<open>s\<close>, in the order in which the
  backtracking matcher tries them.\<close>

type_synonym groups = "string list"

fun ms :: "bool \<Rightarrow> rx \<Rightarrow> string \<Rightarrow> (groups \<times> string) list" where
  "ms ic Eps s = [([], s)]"
| "ms ic (Cls cs) s =
     (case s of [] \<Rightarrow> [] | c # t \<Rightarrow> if in_cls ic cs c then [([], t)] else [])"
| "ms ic (Str l) s = (case str_rest ic l s of None \<Rightarrow> [] | Some t \<Rightarrow> [([], t)])"
| "ms ic (Star cs) s = map (Pair []) (star_rests (in_cls ic cs) s)"
| "ms ic (Plus cs) s =
     (case s of [] \<Rightarrow> []
      | c # t \<Rightarrow> if in_cls ic cs c then map (Pair []) (star_rests (in_cls ic cs) t) else [])"
| "ms ic (Rep n cs) s =
     (case rep_rest (in_cls ic cs) n s of None \<Rightarrow> [] | Some t \<Rightarrow> [([], t)])"
| "ms ic (Opt r) s = ms ic r s @ [([], s)]"
| "ms ic (Alt r1 r2) s = ms ic r1 s @ ms ic r2 s"
| "ms ic (Seq r1 r2) s =
     concat (map (\<lambda>(g1, s1). map (\<lambda>(g2, s2). (g1 @ g2, s2)) (ms ic r2 s1)) (ms ic r1 s))"
| "ms ic (Grp r) s =
     map (\<lambda>(g, t). (take (length s - length t) s # g, t)) (ms ic r s)"

text \<open>\<^verbatim>\<open>re.fullmatch\<close>: the first way that consumes the whole string.
  \<^verbatim>\<open>re.search\<close>: the first way at the leftmost position that has one. A match
  object is the list of its groups, \<^verbatim>\<open>m.group(i)\<close> its \<open>i\<close>-th element.\<close>

definition re_fullmatch :: "bool \<Rightarrow> rx \<Rightarrow> string \<Rightarrow> groups option" where
  "re_fullmatch ic r s = map_option fst (find (\<lambda>(g, t). t = []) (ms ic r s))"

fun re_search :: "bool \<Rightarrow> rx \<Rightarrow> string \<Rightarrow> groups option" where
  "re_search ic r [] = (case ms ic r [] of [] \<Rightarrow> None | (g, t) # _ \<Rightarrow> Some g)"
| "re_search ic r (c # cs) =
     (case ms ic r (c # cs) of [] \<Rightarrow> re_search ic r cs | (g, t) # _ \<Rightarrow> Some g)"

definition group :: "groups \<Rightarrow> nat \<Rightarrow> py_error + string" where
  "group m i = (if 1 \<le> i \<and> i \<le> length m then Inr (m ! (i - 1)) else Inl IndexError)"

section \<open>The date normalizers\<close>

text \<open>\<^verbatim>\<open>convert_date\<close> of frenchcarte.py. Its two patterns are
  \<^verbatim>\<open>\d{6}\<close> and \<^verbatim>\<open>(\d{2})[./-](\d{2})[./-](\d{4})\<close>.\<close>

definition rx_yymmdd :: rx where
  "rx_yymmdd = Rep 6 [D]"

definition rx_dmy :: rx where
  "rx_dmy =
     seq [Grp (Rep 2 [D]), Cls [Lit (CHR ''.''), Lit (CHR ''/''), Lit (CHR ''-'')],
          Grp (Rep 2 [D]), Cls [Lit (CHR ''.''), Lit (CHR ''/''), Lit (CHR ''-'')],
          Grp (Rep 4 [D])]"

definition century :: "int \<Rightarrow> int" where
  "century yy = (if yy > 30 then 1900 + yy else 2000 + yy)"

definition convert_date :: "string \<Rightarrow> py_error + string" where
  "convert_date date_str0 =
     (let date_str = strip date_str0 in
      if re_fullmatch False rx_yymmdd date_str \<noteq> None then
        (case py_int (take 2 date_str) of
           Inl e \<Rightarrow> Inl e
         | Inr yy \<Rightarrow>
             let mm = take 2 (drop 2 date_str);
                 dd = drop 4 date_str;
                 year = century yy
             in Inr (dd @ ''/'' @ mm @ ''/'' @ str_of_int year))
      else
        (case re_fullmatch False rx_dmy date_str of
           Some m \<Rightarrow>
             (case (group m 1, group m 2, group m 3) of
                (Inr g1, Inr g2, Inr g3) \<Rightarrow> Inr (g1 @ ''/'' @ g2 @ ''/'' @ g3)
              | _ \<Rightarrow> Inl IndexError)
         | None \<Rightarrow> Inr date_str))"

text \<open>\<^verbatim>\<open>convert_date\<close> of indian_passport.py.\<close>

definition convert_date_passport :: "string \<Rightarrow> py_error + string" where
  "convert_date_passport ymd =
     (if length ymd \<noteq> 6 then Inr ymd
      else
        (case py_int (take 2 ymd) of
           Inl e \<Rightarrow> Inl e
         | Inr yy \<Rightarrow>
             let mm = take 2 (drop 2 ymd);
                 dd = drop 4 ymd;
                 year = century yy
             in Inr (dd @ ''/'' @ mm @ ''/'' @ str_of_int year)))"

section \<open>Field sets\<close>

text \<open>A FieldSet is a Python \<^verbatim>\<open>dict\<close> from labels to strings, kept as an association
  list in insertion order. \<^verbatim>\<open>d[k] = v\<close> is \<^const>\<open>AList.update\<close>: an existing label
  keeps its place, a new one goes to the end. \<^verbatim>\<open>d.update(other)\<close> stores the
  entries of \<open>other\<close> one after the other.\<close>

type_synonym fieldset = "(string \<times> string) list"

definition dict_update :: "fieldset \<Rightarrow> fieldset \<Rightarrow> fieldset" where
  "dict_update d other = fold (\<lambda>(k, v). AList.update k v) other d"

fun bind_err :: "'e + 'a \<Rightarrow> ('a \<Rightarrow> 'e + 'b) \<Rightarrow> 'e + 'b" where
  "bind_err (Inl e) f = Inl e"
| "bind_err (Inr x) f = f x"

text \<open>The statement \<^verbatim>\<open>if m: info[key] = f(m)\<close>.\<close>

definition set_if_match ::
  "fieldset \<Rightarrow> string \<Rightarrow> groups option \<Rightarrow> (groups \<Rightarrow> py_error + string) \<Rightarrow> py_error + fieldset"
where
  "set_if_match info key m f =
     (case m of None \<Rightarrow> Inr info
      | Some g \<Rightarrow> bind_err (f g) (\<lambda>v. Inr (AList.update key v info)))"

section \<open>The text field extractor of the identity card\<close>

definition non_precise :: string where
  "non_precise = ''Non pr'' @ [CHR 0xE9] @ ''cis'' @ [CHR 0xE9]"

definition key_cni :: string where
  "key_cni = ''Carte nationale d'identit'' @ [CHR 0xE9]"

definition key_nationalite :: string where
  "key_nationalite = ''Nationalit'' @ [CHR 0xE9]"

definition key_nom :: string where
  "key_nom = ''Nom de famille''"

definition key_prenom :: string where
  "key_prenom = ''Pr'' @ [CHR 0xE9] @ ''nom''"

definition key_sexe :: string where
  "key_sexe = ''Sexe''"

definition key_ne_le :: string where
  "key_ne_le = ''N'' @ [CHR 0xE9] @ ''(e) le''"

definition key_taille :: string where
  "key_taille = ''Taille''"

text \<open>\<^verbatim>\<open>(?:Taille|T\.|taille)[\s:]*([\d.,]+)\<close>, searched without flags.\<close>

definition rx_taille :: rx where
  "rx_taille =
     seq [Alt (Str ''Taille'') (Alt (Str ''T.'') (Str ''taille'')),
          Star [S, Lit (CHR '':'')],
          Grp (Plus [D, Lit (CHR ''.''), Lit (CHR '','')])]"

definition extract_taille :: "string \<Rightarrow> py_error + string" where
  "extract_taille ocr_text =
     (case re_search False rx_taille ocr_text of
        Some m \<Rightarrow> bind_err (group m 1) (\<lambda>g. Inr (strip (replace g '','' ''.'')))
      | None \<Rightarrow> Inr non_precise)"

text \<open>The six patterns of \<^verbatim>\<open>extract_info_from_ocr_text\<close>, all searched with
  \<^verbatim>\<open>re.IGNORECASE\<close> (the accented letters are written \<^verbatim>\<open>\xe9\<close> and so on here):
  \<^verbatim>\<open>CARTE NATIONALE D'?IDENTITE(?:\s*Ne\s*[:]?[\s]*)(\d+)\<close>,
  \<^verbatim>\<open>Nationalit\xe9\s*[:]?[\s]*([A-Za-z\xe9\xe8\xe0\xf9\xe7\xc9\xc8\xc0\xd9\xc7]+)\<close>,
  \<^verbatim>\<open>(?:BC\s*)?Nom\s*[:]?[\s]*([A-Z]+)\<close>,
  \<^verbatim>\<open>Pr\xe9nom[\(\{]?[sS]?[}\)]?\s*[:]?[\s]*([A-Z]+)\<close>,
  \<^verbatim>\<open>Sexe\s*[:]?[\s]*([FM])\<close> and
  \<^verbatim>\<open>N[\xe9e\xc9\xc8]*[\(\{]?e[\)\}]?\s*(?:le|ie)?\s*[:]?\s*([\d]{2}[./-][\d]{2}[./-][\d]{4})\<close>.\<close>

definition rx_id :: rx where
  "rx_id =
     seq [Str ''CARTE NATIONALE D'', Opt (Cls [Lit (CHR 0x27)]), Str ''IDENTITE'',
          Star [S], Str ''Ne'', Star [S], Opt (Cls [Lit (CHR '':'')]), Star [S],
          Grp (Plus [D])]"

definition rx_nat :: rx where
  "rx_nat =
     seq [Str (''Nationalit'' @ [CHR 0xE9]), Star [S], Opt (Cls [Lit (CHR '':'')]), Star [S],
          Grp (Plus [Rng (CHR ''A'') (CHR ''Z''), Rng (CHR ''a'') (CHR ''z''),
                     Lit (CHR 0xE9), Lit (CHR 0xE8), Lit (CHR 0xE0), Lit (CHR 0xF9),
                     Lit (CHR 0xE7), Lit (CHR 0xC9), Lit (CHR 0xC8), Lit (CHR 0xC0),
                     Lit (CHR 0xD9), Lit (CHR 0xC7)])]"

definition rx_nom :: rx where
  "rx_nom =
     seq [Opt (Seq (Str ''BC'') (Star [S])), Str ''Nom'', Star [S],
          Opt (Cls [Lit (CHR '':'')]), Star [S],
          Grp (Plus [Rng (CHR ''A'') (CHR ''Z'')])]"

definition rx_prenom :: rx where
  "rx_prenom =
     seq [Str (''Pr'' @ [CHR 0xE9] @ ''nom''),
          Opt (Cls [Lit (CHR ''(''), Lit (CHR ''{'')]),
          Opt (Cls [Lit (CHR ''s''), Lit (CHR ''S'')]),
          Opt (Cls [Lit (CHR ''}''), Lit (CHR '')'')]),
          Star [S], Opt (Cls [Lit (CHR '':'')]), Star [S],
          Grp (Plus [Rng (CHR ''A'') (CHR ''Z'')])]"

definition rx_sexe :: rx where
  "rx_sexe =
     seq [Str ''Sexe'', Star [S], Opt (Cls [Lit (CHR '':'')]), Star [S],
          Grp (Cls [Lit (CHR ''F''), Lit (CHR ''M'')])]"

definition rx_dob :: rx where
  "rx_dob =
     seq [Str ''N'', Star [Lit (CHR 0xE9), Lit (CHR ''e''), Lit (CHR 0xC9), Lit (CHR 0xC8)],
          Opt (Cls [Lit (CHR ''(''), Lit (CHR ''{'')]), Str ''e'',
          Opt (Cls [Lit (CHR '')''), Lit (CHR ''}'')]),
          Star [S], Opt (Alt (Str ''le'') (Str ''ie'')), Star [S],
          Opt (Cls [Lit (CHR '':'')]), Star [S],
          Grp (seq [Rep 2 [D], Cls [Lit (CHR ''.''), Lit (CHR ''/''), Lit (CHR ''-'')],
                    Rep 2 [D], Cls [Lit (CHR ''.''), Lit (CHR ''/''), Lit (CHR ''-'')],
                    Rep 4 [D]])]"

definition extract_info_from_ocr_text :: "string \<Rightarrow> py_error + fieldset" where
  "extract_info_from_ocr_text ocr_text =
     bind_err (set_if_match [] key_cni (re_search True rx_id ocr_text)
                 (\<lambda>id_match. group id_match 1)) (\<lambda>info.
     bind_err (set_if_match info key_nationalite (re_search True rx_nat ocr_text)
                 (\<lambda>nat_match. bind_err (group nat_match 1) (\<lambda>g. Inr (title g)))) (\<lambda>info.
     bind_err (set_if_match info key_nom (re_search True rx_nom ocr_text)
                 (\<lambda>nom_match. bind_err (group nom_match 1) (\<lambda>g. Inr (title g)))) (\<lambda>info.
     bind_err (set_if_match info key_prenom (re_search True rx_prenom ocr_text)
                 (\<lambda>prenom_match. bind_err (group prenom_match 1) (\<lambda>g. Inr (title g)))) (\<lambda>info.
     bind_err (set_if_match info key_sexe (re_search True rx_sexe ocr_text)
                 (\<lambda>sexe_match. bind_err (group sexe_match 1) (\<lambda>g. Inr (upper g)))) (\<lambda>info.
     bind_err (set_if_match info key_ne_le (re_search True rx_dob ocr_text)
                 (\<lambda>dob_match. bind_err (group dob_match 1) convert_date)) (\<lambda>info.
     bind_err (extract_taille ocr_text) (\<lambda>taille.
     Inr (AList.update key_taille taille info))))))))"

section \<open>The country code expander\<close>

text \<open>The country table of the pycountry package is not part of the repository: the
  lookup \<^verbatim>\<open>pycountry.countries.get(alpha_3=...)\<close> is a parameter, which returns a
  country, returns \<^verbatim>\<open>None\<close> or raises. Reading \<^verbatim>\<open>.name\<close> of \<^verbatim>\<open>None\<close> raises
  AttributeError. The handler of \<^verbatim>\<open>get_country_fullname\<close> (the same in both scripts)
  catches every exception.\<close>

record country =
  alpha_3 :: string
  name :: string

type_synonym countries = "string \<Rightarrow> py_error + country option"

definition get_country_fullname :: "countries \<Rightarrow> string \<Rightarrow> string" where
  "get_country_fullname countries_get code =
     (case bind_err (countries_get (upper code)) (\<lambda>country.
             case country of
               None \<Rightarrow> Inl AttributeError
             | Some c \<Rightarrow> Inr (name c @ '' ('' @ upper code @ '')'')) of
        Inr fullname \<Rightarrow> fullname
      | Inl e \<Rightarrow> code)"

section \<open>The MRZ field mappers\<close>

text \<open>The MRZ decoder \<^verbatim>\<open>read_mrz\<close> is external: its result is \<^verbatim>\<open>None\<close> or a record
  whose \<^verbatim>\<open>to_dict()\<close> maps raw key names to strings.\<close>

type_synonym raw_mrz = "string \<rightharpoonup> string"

definition raw_get :: "raw_mrz \<Rightarrow> string \<Rightarrow> string" where
  "raw_get raw k = (case raw k of None \<Rightarrow> [] | Some v \<Rightarrow> v)"

text \<open>The first name of frenchcarte.py, from the cleaned surname and names.\<close>

definition prenom_of :: "string \<Rightarrow> string \<Rightarrow> string" where
  "prenom_of surname names =
     (if names \<noteq> [] then
        (if surname \<noteq> [] \<and> contains names surname then
           (let prenom = strip (replace names surname []) in
            if prenom = [] then names else prenom)
         else names)
      else non_precise)"

definition extract_mrz_info :: "countries \<Rightarrow> raw_mrz option \<Rightarrow> py_error + fieldset" where
  "extract_mrz_info countries_get mrz =
     (case mrz of
        Some raw \<Rightarrow>
          (let surname = title (strip (replace (raw_get raw ''surname'') ''<'' '' ''));
               names = title (strip (replace (raw_get raw ''names'') ''<'' '' ''));
               prenom = prenom_of surname names;
               dob_raw = strip (replace (raw_get raw ''date_of_birth'') ''<'' []);
               exp_raw = strip (replace (raw_get raw ''expiration_date'') ''<'' []);
               sexe = (let x = strip (replace (raw_get raw ''sex'') ''<'' [])
                       in if x \<noteq> [] then x else non_precise)
           in bind_err (convert_date dob_raw) (\<lambda>dob.
              bind_err (convert_date exp_raw) (\<lambda>exp.
              Inr [(''MRZ brut'', raw_get raw ''mrz_text''),
                   (''Pays de d'' @ [CHR 0xE9] @ ''livrance'',
                      get_country_fullname countries_get (raw_get raw ''country'')),
                   (key_cni, replace (raw_get raw ''number'') ''<'' []),
                   (key_nom, surname),
                   (key_prenom, prenom),
                   (key_nationalite,
                      get_country_fullname countries_get (raw_get raw ''nationality'')),
                   (key_ne_le, dob),
                   (''Date d'expiration'', exp),
                   (key_sexe, sexe)])))
      | None \<Rightarrow> Inr [])"

text \<open>The first name of indian_passport.py.\<close>

definition first_name_of :: "string \<Rightarrow> string \<Rightarrow> string" where
  "first_name_of surname names = strip (replace names surname [])"

definition extract_mrz_info_passport ::
  "countries \<Rightarrow> raw_mrz option \<Rightarrow> py_error + fieldset"
where
  "extract_mrz_info_passport countries_get mrz =
     (case mrz of
        Some raw \<Rightarrow>
          (let surname = title (strip (replace (raw_get raw ''surname'') ''<'' '' ''));
               names = title (strip (replace (raw_get raw ''names'') ''<'' '' ''));
               first_name = first_name_of surname names
           in bind_err (convert_date_passport (raw_get raw ''date_of_birth'')) (\<lambda>dob.
              bind_err (convert_date_passport (raw_get raw ''expiration_date'')) (\<lambda>exp.
              Inr [(''Raw MRZ'', raw_get raw ''mrz_text''),
                   (''Country Code (Issued By)'',
                      get_country_fullname countries_get (raw_get raw ''country'')),
                   (''Passport Number'', replace (raw_get raw ''number'') ''<'' []),
                   (''Last Name'', surname),
                   (''First Name'', first_name),
                   (''Nationality'',
                      get_country_fullname countries_get (raw_get raw ''nationality'')),
                   (''Date of Birth'', dob),
                   (''Expiration Date'', exp),
                   (''Sex'', raw_get raw ''sex'')])))
      | None \<Rightarrow> Inr [])"

section \<open>The field merger of the identity card\<close>

text \<open>The merge at the end of frenchcarte.py, and the run of the script on one
  recognized text and one decoder result.\<close>

definition final_info :: "fieldset \<Rightarrow> fieldset \<Rightarrow> string \<Rightarrow> fieldset" where
  "final_info mrz_info ocr_info taille =
     (let final0 = [];
          final1 = (if mrz_info \<noteq> [] then dict_update final0 mrz_info else final0);
          final2 = dict_update final1 ocr_info
      in AList.update key_taille taille final2)"

definition id_card_fields ::
  "countries \<Rightarrow> string \<Rightarrow> raw_mrz option \<Rightarrow> py_error + fieldset"
where
  "id_card_fields countries_get ocr_text mrz =
     bind_err (extract_mrz_info countries_get mrz) (\<lambda>mrz_info.
     bind_err (extract_info_from_ocr_text ocr_text) (\<lambda>ocr_info.
     bind_err (extract_taille ocr_text) (\<lambda>taille.
     Inr (final_info mrz_info ocr_info taille))))"

section \<open>The shapes named by the specification\<close>

text \<open>A string of exactly six digits, \<open>YYMMDD\<close>, and its two-digit year.\<close>

fun is_yymmdd :: "string \<Rightarrow> bool" where
  "is_yymmdd [a, b, c, d, e, f] =
     (isdigit a \<and> isdigit b \<and> isdigit c \<and> isdigit d \<and> isdigit e \<and> isdigit f)"
| "is_yymmdd _ = False"

definition yy_of :: "string \<Rightarrow> int" where
  "yy_of s = int (10 * digit_val (s ! 0) + digit_val (s ! 1))"

definition dmy_of_yymmdd :: "string \<Rightarrow> string" where
  "dmy_of_yymmdd s =
     drop 4 s @ ''/'' @ take 2 (drop 2 s) @ ''/'' @ str_of_int (century (yy_of s))"

text \<open>Two digits, two digits and four digits, separated by a dot, a slash or a
  hyphen.\<close>

definition is_sep :: "char \<Rightarrow> bool" where
  "is_sep c = (c = CHR ''.'' \<or> c = CHR ''/'' \<or> c = CHR ''-'')"

fun is_dmy :: "string \<Rightarrow> bool" where
  "is_dmy [a, b, p, c, d, q, e, f, g, h] =
     (isdigit a \<and> isdigit b \<and> is_sep p \<and> isdigit c \<and> isdigit d \<and> is_sep q \<and>
      isdigit e \<and> isdigit f \<and> isdigit g \<and> isdigit h)"
| "is_dmy _ = False"

text \<open>A direct scan for the height: at a position of the text stands one of the
  three labels of the pattern, compared exactly, then white space and colons, then a
  run of digits, commas and dots, taken as long as it goes. The leftmost such
  position counts.\<close>

definition is_sepc :: "char \<Rightarrow> bool" where
  "is_sepc c = (isspace c \<or> c = CHR '':'')"

definition is_numc :: "char \<Rightarrow> bool" where
  "is_numc c = (isdigit c \<or> c = CHR ''.'' \<or> c = CHR '','')"

definition label_rest :: "string \<Rightarrow> string option" where
  "label_rest s =
     (if prefix ''Taille'' s then Some (drop 6 s)
      else if prefix ''T.'' s then Some (drop 2 s)
      else if prefix ''taille'' s then Some (drop 6 s)
      else None)"

definition taille_run :: "string \<Rightarrow> string option" where
  "taille_run s =
     (case label_rest s of
        None \<Rightarrow> None
      | Some t \<Rightarrow>
          (let run = takeWhile is_numc (dropWhile is_sepc t)
           in if run = [] then None else Some run))"

fun first_taille_run :: "string \<Rightarrow> string option" where
  "first_taille_run [] = None"
| "first_taille_run (c # cs) =
     (case taille_run (c # cs) of Some run \<Rightarrow> Some run | None \<Rightarrow> first_taille_run cs)"

definition comma_to_dot :: "char \<Rightarrow> char" where
  "comma_to_dot c = (if c = CHR '','' then CHR ''.'' else c)"

text \<open>The number of groups of a pattern, and the patterns whose optional and
  alternative parts hold no group: every match of such a pattern has all its groups.\<close>

fun ngroups :: "rx \<Rightarrow> nat" where
  "ngroups (Grp r) = Suc (ngroups r)"
| "ngroups (Seq r1 r2) = ngroups r1 + ngroups r2"
| "ngroups _ = 0"

fun groups_ok :: "rx \<Rightarrow> bool" where
  "groups_ok (Grp r) = groups_ok r"
| "groups_ok (Seq r1 r2) = (groups_ok r1 \<and> groups_ok r2)"
| "groups_ok (Opt r) = (ngroups r = 0 \<and> groups_ok r)"
| "groups_ok (Alt r1 r2) = (ngroups r1 = 0 \<and> ngroups r2 = 0 \<and> groups_ok r1 \<and> groups_ok r2)"
| "groups_ok _ = True"

text \<open>The value of a field that a pattern with one group finds, and the optional
  store of a field.\<close>

definition group1 :: "groups option \<Rightarrow> string option" where
  "group1 m = (case m of Some (g # _) \<Rightarrow> Some g | _ \<Rightarrow> None)"

fun put :: "string \<Rightarrow> string option \<Rightarrow> fieldset \<Rightarrow> fieldset" where
  "put k None d = d"
| "put k (Some v) d = AList.update k v d"

text \<open>The normalized date and the height as plain functions of the text.\<close>

definition normalized :: "string \<Rightarrow> string" where
  "normalized s0 =
     (let s = strip s0 in
      if is_yymmdd s then dmy_of_yymmdd s
      else if is_dmy s then take 2 s @ ''/'' @ take 2 (drop 3 s) @ ''/'' @ drop 6 s
      else s)"

definition height_of :: "string \<Rightarrow> string" where
  "height_of ocr_text =
     (case first_taille_run ocr_text of
        Some run \<Rightarrow> map comma_to_dot run
      | None \<Rightarrow> non_precise)"

text \<open>The field set of the text field extractor, written out.\<close>

definition ocr_fields :: "string \<Rightarrow> fieldset" where
  "ocr_fields t =
     AList.update key_taille (height_of t)
       (put key_ne_le (map_option normalized (group1 (re_search True rx_dob t)))
       (put key_sexe (map_option upper (group1 (re_search True rx_sexe t)))
       (put key_prenom (map_option title (group1 (re_search True rx_prenom t)))
       (put key_nom (map_option title (group1 (re_search True rx_nom t)))
       (put key_nationalite (map_option title (group1 (re_search True rx_nat t)))
       (put key_cni (group1 (re_search True rx_id t)) []))))))"

text \<open>A country table with one entry, for the examples.\<close>

definition france_only :: countries where
  "france_only code =
     (if code = ''FRA'' then Inr (Some \<lparr>alpha_3 = ''FRA'', name = ''France''\<rparr>) else Inr None)"

section \<open>Strings: auxiliary facts\<close>

lemma digit_not_space: "isdigit c \<Longrightarrow> \<not> isspace c"
  by (auto simp: isdigit_def isspace_def)

lemma digit_not_int_space: "isdigit c \<Longrightarrow> \<not> int_space c"
  by (auto simp: isdigit_def int_space_def)

lemma digit_not_sign: "isdigit c \<Longrightarrow> c \<noteq> CHR ''-'' \<and> c \<noteq> CHR ''+''"
  by (auto simp: isdigit_def ord_def)

lemma py_int_two_digits:
  "isdigit a \<Longrightarrow> isdigit b \<Longrightarrow> py_int [a, b] = Inr (int (10 * digit_val a + digit_val b))"
  by (simp add: py_int_def int_literal_def digit_not_int_space digit_not_sign)

lemma dropWhile_hd: "s \<noteq> [] \<Longrightarrow> \<not> P (hd s) \<Longrightarrow> dropWhile P s = s"
  by (cases s) simp_all

lemma strip_id: "s \<noteq> [] \<Longrightarrow> \<not> isspace (hd s) \<Longrightarrow> \<not> isspace (last s) \<Longrightarrow> strip s = s"
  by (simp add: strip_def lstrip_def rstrip_def dropWhile_hd hd_rev)

lemma strip_Nil [simp]: "strip [] = []"
  by (simp add: strip_def lstrip_def rstrip_def)

section \<open>The date normalizers: auxiliary facts\<close>

lemma rep_rest_eq:
  "rep_rest P n s = (if n \<le> length s \<and> list_all P (take n s) then Some (drop n s) else None)"
  by (induction P n s rule: rep_rest.induct) auto

lemma is_yymmdd_iff: "is_yymmdd s \<longleftrightarrow> length s = 6 \<and> list_all isdigit s"
  by (induction s rule: is_yymmdd.induct) auto

lemma in_cls_D [simp]: "in_cls False [D] = isdigit"
  by (rule ext) (simp add: in_cls_def)

lemma in_cls_sep [simp]:
  "in_cls False [Lit (CHR ''.''), Lit (CHR ''/''), Lit (CHR ''-'')] = is_sep"
  by (rule ext) (auto simp: in_cls_def is_sep_def)

lemma fullmatch_yymmdd: "re_fullmatch False rx_yymmdd s = None \<longleftrightarrow> \<not> is_yymmdd s"
  by (auto simp: re_fullmatch_def rx_yymmdd_def rep_rest_eq is_yymmdd_iff)

lemma fullmatch_dmy:
  "re_fullmatch False rx_dmy s =
     (if is_dmy s then Some [take 2 s, take 2 (drop 3 s), drop 6 s] else None)"
proof (induction s rule: is_dmy.induct)
  case (1 a b p c d q e f g h)
  show ?case
    by (simp add: re_fullmatch_def rx_dmy_def rep_rest_eq)
qed (simp_all add: re_fullmatch_def rx_dmy_def rep_rest_eq split: list.splits)

lemma convert_date_eq:
  "convert_date s0 =
     Inr (let s = strip s0 in
          if is_yymmdd s then dmy_of_yymmdd s
          else if is_dmy s then take 2 s @ ''/'' @ take 2 (drop 3 s) @ ''/'' @ drop 6 s
          else s)"
proof (cases "is_yymmdd (strip s0)")
  case True
  then obtain a b c d e f where s: "strip s0 = [a, b, c, d, e, f]"
    and dg: "isdigit a" "isdigit b"
    by (cases "strip s0" rule: is_yymmdd.cases) auto
  have "py_int (take 2 (strip s0)) = Inr (yy_of (strip s0))"
    using dg by (simp add: s py_int_two_digits yy_of_def)
  then show ?thesis
    using True
    by (simp add: convert_date_def Let_def fullmatch_yymmdd dmy_of_yymmdd_def)
next
  case False
  then show ?thesis
    by (simp add: convert_date_def Let_def fullmatch_yymmdd fullmatch_dmy group_def)
qed

lemma convert_date_passport_eq:
  "is_yymmdd s \<Longrightarrow> convert_date_passport s = Inr (dmy_of_yymmdd s)"
  by (cases s rule: is_yymmdd.cases)
     (simp_all add: convert_date_passport_def py_int_two_digits dmy_of_yymmdd_def yy_of_def)

lemmas char_simps = isdigit_def isspace_def ord_def digit_val_def is_sep_def

lemma strip_eval: "strip s = rev (dropWhile isspace (rev (dropWhile isspace s)))"
  by (simp add: strip_def lstrip_def rstrip_def)

lemma strip_append_spaces:
  assumes "list_all isspace ws"
  shows "strip (s @ ws) = strip s"
proof (cases "list_all isspace s")
  case True
  with assms have "dropWhile isspace (s @ ws) = []" "dropWhile isspace s = []"
    by (simp_all add: list_all_iff)
  then show ?thesis by (simp only: strip_eval)
next
  case False
  then obtain x where "x \<in> set s" "\<not> isspace x" by (auto simp: list_all_iff)
  then have "dropWhile isspace (s @ ws) = dropWhile isspace s @ ws"
    by (rule dropWhile_append1)
  moreover have "dropWhile isspace (rev ws @ t) = dropWhile isspace t" for t
    using assms by (intro dropWhile_append2) (simp add: list_all_iff)
  ultimately show ?thesis by (simp add: strip_eval)
qed

lemma strip_prepend_spaces:
  assumes "list_all isspace ws"
  shows "strip (ws @ s) = strip s"
proof -
  have "dropWhile isspace (ws @ s) = dropWhile isspace s"
    using assms by (intro dropWhile_append2) (simp add: list_all_iff)
  then show ?thesis by (simp add: strip_eval)
qed


lemma convert_date_padded:
  "list_all isspace ws1 \<Longrightarrow> list_all isspace ws2 \<Longrightarrow>
   convert_date (ws1 @ s @ ws2) = convert_date s"
  by (simp add: convert_date_eq strip_prepend_spaces strip_append_spaces)

lemma strip_yymmdd: "is_yymmdd s \<Longrightarrow> strip s = s"
  by (cases s rule: is_yymmdd.cases) (simp_all add: strip_id digit_not_space)

lemma strip_dmy: "is_dmy s \<Longrightarrow> strip s = s"
  by (cases s rule: is_dmy.cases) (simp_all add: strip_id digit_not_space)

lemma dmy_not_yymmdd: "is_dmy s \<Longrightarrow> \<not> is_yymmdd s"
  by (cases s rule: is_dmy.cases) simp_all

section \<open>The claims on the date normalizers\<close>

text \<open>
  Claim C1. For every string of exactly six digits \<open>YYMMDD\<close>, both date normalizers
  (\<^const>\<open>convert_date\<close> of the identity card, \<^const>\<open>convert_date_passport\<close> of the
  passport) return \<open>DD/MM/year\<close>, where the year is \<open>1900 + YY\<close> when \<open>YY > 30\<close> and
  \<open>2000 + YY\<close> otherwise.
\<close>

theorem convert_date_six_digits:
  "isdigit a \<and> isdigit b \<and> isdigit c \<and> isdigit d \<and> isdigit e \<and> isdigit f \<Longrightarrow>
   yy = int (10 * digit_val a + digit_val b) \<Longrightarrow>
   year = (if yy > 30 then 1900 + yy else 2000 + yy) \<Longrightarrow>
   convert_date [a, b, c, d, e, f] = Inr ([e, f] @ ''/'' @ [c, d] @ ''/'' @ str_of_int year) \<and>
   convert_date_passport [a, b, c, d, e, f] =
     Inr ([e, f] @ ''/'' @ [c, d] @ ''/'' @ str_of_int year)"
proof -
  assume dg: "isdigit a \<and> isdigit b \<and> isdigit c \<and> isdigit d \<and> isdigit e \<and> isdigit f"
    and yy: "yy = int (10 * digit_val a + digit_val b)"
    and year: "year = (if yy > 30 then 1900 + yy else 2000 + yy)"
  let ?s = "[a, b, c, d, e, f]"
  have m: "is_yymmdd ?s" using dg by simp
  have st: "strip ?s = ?s"
    using dg by (intro strip_id) (simp_all add: digit_not_space)
  have out: "dmy_of_yymmdd ?s = [e, f] @ ''/'' @ [c, d] @ ''/'' @ str_of_int year"
    by (simp add: dmy_of_yymmdd_def yy_of_def century_def yy year)
  have "convert_date ?s = Inr (dmy_of_yymmdd ?s)"
    using m by (simp only: convert_date_eq st Let_def if_True)
  moreover have "convert_date_passport ?s = Inr (dmy_of_yymmdd ?s)"
    using m by (rule convert_date_passport_eq)
  ultimately show ?thesis by (simp only: out simp_thms)
qed

theorem convert_date_six_digits_witness:
  "isdigit (CHR ''8'') \<and> isdigit (CHR ''5'') \<and> isdigit (CHR ''0'') \<and> isdigit (CHR ''1'') \<and>
   convert_date ''850101'' = Inr ''01/01/1985'' \<and>
   convert_date_passport ''850101'' = Inr ''01/01/1985'' \<and>
   convert_date ''050101'' = Inr ''01/01/2005'' \<and>
   convert_date_passport ''050101'' = Inr ''01/01/2005''"
  using convert_date_six_digits [of "CHR ''8''" "CHR ''5''" "CHR ''0''" "CHR ''1''"
      "CHR ''0''" "CHR ''1''" 85 1985]
    convert_date_six_digits [of "CHR ''0''" "CHR ''5''" "CHR ''0''" "CHR ''1''"
      "CHR ''0''" "CHR ''1''" 5 2005]
  by (simp add: char_simps str_of_int_def)

text \<open>
  Claim C2, as stated: an input that matches neither the six-digit pattern nor the
  delimited pattern is returned unchanged, and neither variant ever raises. It fails:
  the identity-card variant returns the stripped input, which differs from an input
  with white space around it, and the passport variant raises ValueError on six
  characters that do not start with a number.
\<close>

theorem convert_date_unchanged_counterexample:
  "\<not> is_yymmdd '' unknown '' \<and> \<not> is_dmy '' unknown '' \<and>
   convert_date '' unknown '' = Inr ''unknown'' \<and> ''unknown'' \<noteq> '' unknown '' \<and>
   length ''AB0101'' = 6 \<and> \<not> is_yymmdd ''AB0101'' \<and>
   convert_date_passport ''AB0101'' = Inl ValueError"
  by (simp add: convert_date_eq strip_eval convert_date_passport_def py_int_def
      int_literal_def int_space_def char_simps)

text \<open>
  Claim C2, amended. The identity-card normalizer never raises; when the stripped
  input matches neither pattern, it returns the stripped input, which is the input
  itself when no white space stands at its ends. The passport normalizer returns
  every input whose length is not six unchanged.
\<close>

theorem convert_date_fallback:
  "(\<exists>r. convert_date s = Inr r) \<and>
   (\<not> is_yymmdd (strip s) \<and> \<not> is_dmy (strip s) \<longrightarrow> convert_date s = Inr (strip s)) \<and>
   ((s = [] \<or> (\<not> isspace (hd s) \<and> \<not> isspace (last s))) \<and> \<not> is_yymmdd s \<and> \<not> is_dmy s \<longrightarrow>
      convert_date s = Inr s) \<and>
   (length s \<noteq> 6 \<longrightarrow> convert_date_passport s = Inr s)"
proof -
  have "strip s = s" if "s = [] \<or> (\<not> isspace (hd s) \<and> \<not> isspace (last s))"
    using that by (cases "s = []") (simp_all add: strip_id)
  then show ?thesis
    by (auto simp: convert_date_eq Let_def convert_date_passport_def)
qed

theorem convert_date_fallback_witness:
  "\<not> isspace (hd ''unknown'') \<and> \<not> isspace (last ''unknown'') \<and>
   \<not> is_yymmdd ''unknown'' \<and> \<not> is_dmy ''unknown'' \<and> length ''unknown'' \<noteq> 6 \<and>
   convert_date ''unknown'' = Inr ''unknown'' \<and>
   convert_date_passport ''unknown'' = Inr ''unknown'' \<and>
   convert_date [] = Inr [] \<and> convert_date_passport [] = Inr []"
  using convert_date_fallback [of "''unknown''"] convert_date_fallback [of "[]"]
  by (simp add: char_simps)

text \<open>
  Claim C7. For every string of two digits, two digits and four digits, separated by
  a dot, a slash or a hyphen, the identity-card normalizer returns the same three
  digit groups separated by slashes.
\<close>

theorem convert_date_delimited:
  "isdigit a \<and> isdigit b \<and> is_sep p \<and> isdigit c \<and> isdigit d \<and> is_sep q \<and>
   isdigit e \<and> isdigit f \<and> isdigit g \<and> isdigit h \<Longrightarrow>
   convert_date [a, b, p, c, d, q, e, f, g, h] =
     Inr ([a, b] @ ''/'' @ [c, d] @ ''/'' @ [e, f, g, h])"
proof -
  assume h: "isdigit a \<and> isdigit b \<and> is_sep p \<and> isdigit c \<and> isdigit d \<and> is_sep q \<and>
   isdigit e \<and> isdigit f \<and> isdigit g \<and> isdigit h"
  let ?s = "[a, b, p, c, d, q, e, f, g, h]"
  have st: "strip ?s = ?s"
    using h by (intro strip_id) (simp_all add: digit_not_space)
  have "is_dmy ?s" "\<not> is_yymmdd ?s" using h by simp_all
  then show ?thesis
    by (simp add: convert_date_eq st)
qed

theorem convert_date_delimited_witness:
  "isdigit (CHR ''1'') \<and> isdigit (CHR ''5'') \<and> is_sep (CHR ''.'') \<and> isdigit (CHR ''0'') \<and>
   isdigit (CHR ''7'') \<and> isdigit (CHR ''9'') \<and>
   convert_date ''15.07.1990'' = Inr ''15/07/1990''"
  using convert_date_delimited [of "CHR ''1''" "CHR ''5''" "CHR ''.''" "CHR ''0''" "CHR ''7''"
      "CHR ''.''" "CHR ''1''" "CHR ''9''" "CHR ''9''" "CHR ''0''"]
  by (simp add: char_simps)

text \<open>
  Claim C9. The identity-card normalizer strips white space from both ends of its
  input before it matches: white space added around an input does not change the
  result, so that \<open>'' 850101 ''\<close> and \<open>'' 15.07.1990 ''\<close>, which have neither shape
  themselves, are normalized. The passport normalizer does not strip: a padded input
  of a length other than six is returned as it is.
\<close>

theorem convert_date_strips_input:
  "(list_all isspace ws1 \<and> list_all isspace ws2 \<longrightarrow>
      convert_date (ws1 @ s @ ws2) = convert_date s) \<and>
   (length (ws1 @ s @ ws2) \<noteq> 6 \<longrightarrow>
      convert_date_passport (ws1 @ s @ ws2) = Inr (ws1 @ s @ ws2)) \<and>
   \<not> is_yymmdd '' 850101 '' \<and> \<not> is_dmy '' 15.07.1990 '' \<and>
   convert_date '' 850101 '' = Inr ''01/01/1985'' \<and>
   convert_date '' 15.07.1990 '' = Inr ''15/07/1990'' \<and>
   convert_date_passport '' 850101 '' = Inr '' 850101 '' \<and>
   convert_date_passport '' 15.07.1990 '' = Inr '' 15.07.1990 ''"
proof -
  have sp: "list_all isspace '' ''" by (simp add: char_simps)
  have a: "convert_date ''850101'' = Inr ''01/01/1985''"
    by (simp add: convert_date_eq strip_eval dmy_of_yymmdd_def yy_of_def century_def
        str_of_int_def char_simps)
  have b: "convert_date ''15.07.1990'' = Inr ''15/07/1990''"
    by (simp add: convert_date_eq strip_eval char_simps)
  have "convert_date ('' '' @ ''850101'' @ '' '') = convert_date ''850101''"
    by (rule convert_date_padded [OF sp sp])
  moreover have "convert_date ('' '' @ ''15.07.1990'' @ '' '') = convert_date ''15.07.1990''"
    by (rule convert_date_padded [OF sp sp])
  ultimately show ?thesis
    using a b sp by (simp add: convert_date_padded convert_date_passport_def)
qed

theorem convert_date_strips_input_witness:
  "list_all isspace ''  '' \<and> list_all isspace [CHR 0x09] \<and>
   convert_date (''  '' @ ''050101'' @ [CHR 0x09]) = Inr ''01/01/2005'' \<and>
   convert_date_passport (''  '' @ ''050101'' @ [CHR 0x09]) = Inr (''  '' @ ''050101'' @ [CHR 0x09])"
proof -
  have a: "convert_date ''050101'' = Inr ''01/01/2005''"
    by (simp add: convert_date_eq strip_eval dmy_of_yymmdd_def yy_of_def century_def
        str_of_int_def char_simps)
  show ?thesis
    using convert_date_strips_input [of "''  ''" "[CHR 0x09]" "''050101''"] a
    by (simp add: char_simps)
qed

text \<open>
  Claim C10. Neither normalizer checks the calendar: every string of one of the
  accepted shapes is reordered whatever its month and day digits are, so that
  \<open>''99-99-9999''\<close> gives \<open>''99/99/9999''\<close> and \<open>''999999''\<close> gives \<open>''99/99/1999''\<close>.
\<close>

theorem convert_date_no_calendar_check:
  "(is_yymmdd s \<longrightarrow>
      convert_date s =
        Inr (drop 4 s @ ''/'' @ take 2 (drop 2 s) @ ''/'' @ str_of_int (century (yy_of s))) \<and>
      convert_date_passport s =
        Inr (drop 4 s @ ''/'' @ take 2 (drop 2 s) @ ''/'' @ str_of_int (century (yy_of s)))) \<and>
   (is_dmy s \<longrightarrow>
      convert_date s = Inr (take 2 s @ ''/'' @ take 2 (drop 3 s) @ ''/'' @ drop 6 s)) \<and>
   convert_date ''99-99-9999'' = Inr ''99/99/9999'' \<and>
   convert_date ''999999'' = Inr ''99/99/1999'' \<and>
   convert_date_passport ''999999'' = Inr ''99/99/1999''"
proof -
  have a: "convert_date ''99-99-9999'' = Inr ''99/99/9999''"
    by (simp add: convert_date_eq strip_eval char_simps)
  have b: "convert_date ''999999'' = Inr ''99/99/1999''"
    by (simp add: convert_date_eq strip_eval dmy_of_yymmdd_def yy_of_def century_def
        str_of_int_def char_simps)
  have c: "convert_date_passport ''999999'' = Inr ''99/99/1999''"
    by (simp add: convert_date_passport_eq dmy_of_yymmdd_def yy_of_def century_def
        str_of_int_def char_simps)
  show ?thesis
    using a b c
    by (auto simp: convert_date_eq strip_yymmdd strip_dmy dmy_not_yymmdd
        convert_date_passport_eq dmy_of_yymmdd_def)
qed

theorem convert_date_no_calendar_check_witness:
  "is_yymmdd ''001332'' \<and> is_dmy ''32/13/0000'' \<and>
   convert_date ''001332'' = Inr ''32/13/2000'' \<and>
   convert_date_passport ''001332'' = Inr ''32/13/2000'' \<and>
   convert_date ''32/13/0000'' = Inr ''32/13/0000''"
  using convert_date_no_calendar_check [of "''001332''"]
    convert_date_no_calendar_check [of "''32/13/0000''"]
  by (simp add: char_simps yy_of_def century_def str_of_int_def)

lemma upper_simps:
  "upper [] = []"
  "upper (c # cs) = upper_char c @ upper cs"
  by (simp_all add: upper_def)

lemmas case_simps = upper_simps upper_char_def is_lower_letter_def sub32_def ord_def

section \<open>The country code expander: claim\<close>

text \<open>
  Claim C3. \<^const>\<open>get_country_fullname\<close> returns a string for every code and every
  behaviour of the country table: the name of the country followed by the upper-cased
  code in parentheses when the lookup of the upper-cased code finds a country, and
  the code itself, unchanged, when the lookup finds nothing or raises.
\<close>

theorem get_country_fullname_total:
  "(countries_get (upper code) = Inr (Some c) \<longrightarrow>
      get_country_fullname countries_get code = name c @ '' ('' @ upper code @ '')'') \<and>
   (countries_get (upper code) = Inr None \<longrightarrow> get_country_fullname countries_get code = code) \<and>
   (countries_get (upper code) = Inl e \<longrightarrow> get_country_fullname countries_get code = code)"
  by (simp add: get_country_fullname_def)

theorem get_country_fullname_total_witness:
  "france_only (upper ''FRA'') = Inr (Some \<lparr>alpha_3 = ''FRA'', name = ''France''\<rparr>) \<and>
   get_country_fullname france_only ''FRA'' = ''France (FRA)'' \<and>
   get_country_fullname france_only ''fra'' = ''France (FRA)'' \<and>
   france_only (upper ''ZZZ'') = Inr None \<and>
   get_country_fullname france_only ''ZZZ'' = ''ZZZ'' \<and>
   get_country_fullname france_only [] = [] \<and>
   get_country_fullname (\<lambda>code. Inl LookupError) ''FRA'' = ''FRA''"
  using get_country_fullname_total [of france_only "''FRA''" "\<lparr>alpha_3 = ''FRA'', name = ''France''\<rparr>"]
    get_country_fullname_total [of france_only "''fra''" "\<lparr>alpha_3 = ''FRA'', name = ''France''\<rparr>"]
    get_country_fullname_total [of france_only "''ZZZ''"]
    get_country_fullname_total [of france_only "[]"]
    get_country_fullname_total [of "\<lambda>code. Inl LookupError" "''FRA''" _ LookupError]
  by (simp add: france_only_def case_simps)

section \<open>The first name: auxiliary facts and claim\<close>

lemma contains_iff: "contains s sub \<longleftrightarrow> (\<exists>p q. s = p @ sub @ q)"
proof (induction s)
  case Nil
  then show ?case by auto
next
  case (Cons c cs)
  show ?case
  proof
    assume "contains (c # cs) sub"
    then consider "prefix sub (c # cs)" | "contains cs sub" by auto
    then show "\<exists>p q. c # cs = p @ sub @ q"
    proof cases
      case 1
      then obtain q where "c # cs = sub @ q" by (auto simp: prefix_def)
      then have "c # cs = [] @ sub @ q" by simp
      then show ?thesis by blast
    next
      case 2
      with Cons.IH obtain p q where "cs = p @ sub @ q" by blast
      then have "c # cs = (c # p) @ sub @ q" by simp
      then show ?thesis by blast
    qed
  next
    assume "\<exists>p q. c # cs = p @ sub @ q"
    then obtain p q where e: "c # cs = p @ sub @ q" by blast
    show "contains (c # cs) sub"
    proof (cases p)
      case Nil
      with e have "prefix sub (c # cs)" by (simp add: prefix_def)
      then show ?thesis by simp
    next
      case (Cons a p')
      with e have "cs = p' @ sub @ q" by simp
      with Cons.IH have "contains cs sub" by blast
      then show ?thesis by simp
    qed
  qed
qed

lemma convert_date_total: "\<exists>r. convert_date s = Inr r"
  by (simp add: convert_date_eq)

lemma replace_simps:
  "replace s [] new = new @ concat (map (\<lambda>c. c # new) s)"
  "old \<noteq> [] \<Longrightarrow> replace s old new = replace_from old new s"
  by (simp_all add: replace_def)

lemma extract_mrz_info_prenom:
  "\<exists>fs. extract_mrz_info countries_get (Some raw) = Inr fs \<and>
        map_of fs key_prenom =
          Some (prenom_of (title (strip (replace (raw_get raw ''surname'') ''<'' '' '')))
                          (title (strip (replace (raw_get raw ''names'') ''<'' '' ''))))"
proof -
  obtain dob where dob: "convert_date (strip (replace (raw_get raw ''date_of_birth'') ''<'' [])) = Inr dob"
    using convert_date_total by blast
  obtain ex where ex: "convert_date (strip (replace (raw_get raw ''expiration_date'') ''<'' [])) = Inr ex"
    using convert_date_total by blast
  show ?thesis
    by (simp add: extract_mrz_info_def Let_def dob ex key_prenom_def key_cni_def key_nom_def)
qed

lemma extract_mrz_info_passport_first_name:
  "extract_mrz_info_passport countries_get (Some raw) = Inr fs \<Longrightarrow>
   map_of fs ''First Name'' =
     Some (first_name_of (title (strip (replace (raw_get raw ''surname'') ''<'' '' '')))
                         (title (strip (replace (raw_get raw ''names'') ''<'' '' ''))))"
  by (cases "convert_date_passport (raw_get raw ''date_of_birth'')";
      cases "convert_date_passport (raw_get raw ''expiration_date'')")
     (auto simp: extract_mrz_info_passport_def Let_def)

lemma title_simps:
  "title s = title_from False s"
  by (simp add: title_def)

lemmas str_eval = strip_eval replace_simps replace_from.simps title_simps tolower_def title_char_def is_cased_def
  is_upper_letter_def is_lower_letter_def add32_def sub32_def isspace_def ord_def raw_get_def

lemma extract_mrz_info_passport_returns:
  "convert_date_passport (raw_get raw ''date_of_birth'') = Inr dob \<Longrightarrow>
   convert_date_passport (raw_get raw ''expiration_date'') = Inr ex \<Longrightarrow>
   \<exists>fs. extract_mrz_info_passport countries_get (Some raw) = Inr fs \<and>
        map_of fs ''First Name'' =
          Some (first_name_of (title (strip (replace (raw_get raw ''surname'') ''<'' '' '')))
                              (title (strip (replace (raw_get raw ''names'') ''<'' '' ''))))"
  by (simp add: extract_mrz_info_passport_def Let_def)

text \<open>
  Claim C5. In the MRZ field mapper of the identity card the first name comes from the
  cleaned, title-cased surname and names: when names is not empty and the surname is
  not empty and occurs in names, the occurrences of the surname are removed and the
  rest is stripped, and names itself is taken when nothing is left; when the surname
  is empty or does not occur in names, the first name is names; when names is empty,
  it is the placeholder. The passport mapper, whenever its two dates convert, returns
  the names with the surname removed and stripped, without any guard: on a record
  whose surname and names are both \<open>DUPONT\<close> it returns an empty first name, where the
  mapper of the identity card returns \<open>Dupont\<close>.
\<close>

theorem first_name_derivation:
  "(names \<noteq> [] \<and> surname \<noteq> [] \<and> (\<exists>p q. names = p @ surname @ q) \<longrightarrow>
      prenom_of surname names =
        (if strip (replace names surname []) = [] then names
         else strip (replace names surname []))) \<and>
   (names \<noteq> [] \<and> (surname = [] \<or> \<not> (\<exists>p q. names = p @ surname @ q)) \<longrightarrow>
      prenom_of surname names = names) \<and>
   (names = [] \<longrightarrow> prenom_of surname names = non_precise) \<and>
   first_name_of surname names = strip (replace names surname []) \<and>
   (surname = title (strip (replace (raw_get raw ''surname'') ''<'' '' '')) \<and>
    names = title (strip (replace (raw_get raw ''names'') ''<'' '' '')) \<longrightarrow>
      (\<exists>fs. extract_mrz_info countries_get (Some raw) = Inr fs \<and>
            map_of fs key_prenom = Some (prenom_of surname names)) \<and>
      (convert_date_passport (raw_get raw ''date_of_birth'') = Inr dob \<and>
       convert_date_passport (raw_get raw ''expiration_date'') = Inr ex \<longrightarrow>
         (\<exists>fs. extract_mrz_info_passport countries_get (Some raw) = Inr fs \<and>
               map_of fs ''First Name'' = Some (first_name_of surname names)))) \<and>
   (\<exists>fs. extract_mrz_info_passport countries_get
           (Some [''surname'' \<mapsto> ''DUPONT'', ''names'' \<mapsto> ''DUPONT'']) = Inr fs \<and>
         map_of fs ''First Name'' = Some []) \<and>
   (\<exists>fs. extract_mrz_info countries_get
           (Some [''surname'' \<mapsto> ''DUPONT'', ''names'' \<mapsto> ''DUPONT'']) = Inr fs \<and>
         map_of fs key_prenom = Some ''Dupont'')"
proof -
  let ?raw = "[''surname'' \<mapsto> ''DUPONT'', ''names'' \<mapsto> ''DUPONT'']"
  have sn: "title (strip (replace (raw_get ?raw ''surname'') ''<'' '' '')) = ''Dupont''"
    by (simp add: str_eval)
  have nm: "title (strip (replace (raw_get ?raw ''names'') ''<'' '' '')) = ''Dupont''"
    by (simp add: str_eval)
  have a: "first_name_of ''Dupont'' ''Dupont'' = []"
    by (simp add: first_name_of_def replace_simps replace_from.simps)
  have b: "prenom_of ''Dupont'' ''Dupont'' = ''Dupont''"
    by (simp add: prenom_of_def replace_simps replace_from.simps)
  have d: "convert_date_passport (raw_get ?raw ''date_of_birth'') = Inr []"
    "convert_date_passport (raw_get ?raw ''expiration_date'') = Inr []"
    by (simp_all add: raw_get_def convert_date_passport_def)
  have pp: "\<exists>fs. extract_mrz_info_passport countries_get (Some ?raw) = Inr fs \<and>
         map_of fs ''First Name'' = Some []"
    using extract_mrz_info_passport_returns [OF d, of countries_get]
    by (simp only: sn nm a)
  have fr: "\<exists>fs. extract_mrz_info countries_get (Some ?raw) = Inr fs \<and>
         map_of fs key_prenom = Some ''Dupont''"
    using extract_mrz_info_prenom [of countries_get ?raw]
    by (simp only: sn nm b)
  have gen: "(names \<noteq> [] \<and> surname \<noteq> [] \<and> (\<exists>p q. names = p @ surname @ q) \<longrightarrow>
      prenom_of surname names =
        (if strip (replace names surname []) = [] then names
         else strip (replace names surname []))) \<and>
   (names \<noteq> [] \<and> (surname = [] \<or> \<not> (\<exists>p q. names = p @ surname @ q)) \<longrightarrow>
      prenom_of surname names = names) \<and>
   (names = [] \<longrightarrow> prenom_of surname names = non_precise) \<and>
   first_name_of surname names = strip (replace names surname [])"
    by (auto simp: prenom_of_def Let_def contains_iff first_name_of_def)
  have mp: "surname = title (strip (replace (raw_get raw ''surname'') ''<'' '' '')) \<and>
    names = title (strip (replace (raw_get raw ''names'') ''<'' '' '')) \<longrightarrow>
      (\<exists>fs. extract_mrz_info countries_get (Some raw) = Inr fs \<and>
            map_of fs key_prenom = Some (prenom_of surname names)) \<and>
      (convert_date_passport (raw_get raw ''date_of_birth'') = Inr dob \<and>
       convert_date_passport (raw_get raw ''expiration_date'') = Inr ex \<longrightarrow>
         (\<exists>fs. extract_mrz_info_passport countries_get (Some raw) = Inr fs \<and>
               map_of fs ''First Name'' = Some (first_name_of surname names)))"
    using extract_mrz_info_prenom [of countries_get raw]
      extract_mrz_info_passport_returns [of raw dob ex countries_get]
    by blast
  from gen mp pp fr show ?thesis by (intro conjI) (elim conjE, assumption)+
qed

theorem first_name_derivation_witness:
  "(\<exists>p q. ''Dupont Marie'' = p @ ''Dupont'' @ q) \<and>
   prenom_of ''Dupont'' ''Dupont Marie'' = ''Marie'' \<and>
   \<not> (\<exists>p q. ''Marie'' = p @ ''Durand'' @ q) \<and>
   prenom_of ''Durand'' ''Marie'' = ''Marie'' \<and>
   prenom_of [] ''Marie'' = ''Marie'' \<and>
   prenom_of ''Dupont'' [] = non_precise \<and>
   convert_date_passport ''850101'' = Inr ''01/01/1985'' \<and>
   convert_date_passport [] = Inr [] \<and>
   (\<exists>fs. extract_mrz_info france_only
           (Some [''surname'' \<mapsto> ''DUPONT<'', ''names'' \<mapsto> ''MARIE<JEANNE'',
                  ''date_of_birth'' \<mapsto> ''850101'']) = Inr fs \<and>
         map_of fs key_prenom = Some ''Marie Jeanne'') \<and>
   (\<exists>fs. extract_mrz_info_passport france_only
           (Some [''surname'' \<mapsto> ''DUPONT<'', ''names'' \<mapsto> ''MARIE<JEANNE'',
                  ''date_of_birth'' \<mapsto> ''850101'']) = Inr fs \<and>
         map_of fs ''First Name'' = Some ''Marie Jeanne'')"
proof -
  let ?raw = "[''surname'' \<mapsto> ''DUPONT<'', ''names'' \<mapsto> ''MARIE<JEANNE'',
               ''date_of_birth'' \<mapsto> ''850101'']"
  have "''Dupont Marie'' = [] @ ''Dupont'' @ '' Marie''" by simp
  then have ex: "\<exists>p q. ''Dupont Marie'' = p @ ''Dupont'' @ q" by blast
  have nex: "\<not> (\<exists>p q. ''Marie'' = p @ ''Durand'' @ q)"
    unfolding contains_iff [symmetric] by simp
  have r1: "strip (replace ''Dupont Marie'' ''Dupont'' []) = ''Marie''"
    by (simp add: str_eval)
  have sn: "title (strip (replace (raw_get ?raw ''surname'') ''<'' '' '')) = ''Dupont''"
    by (simp add: str_eval)
  have nm: "title (strip (replace (raw_get ?raw ''names'') ''<'' '' '')) = ''Marie Jeanne''"
    by (simp add: str_eval)
  have p: "prenom_of ''Dupont'' ''Marie Jeanne'' = ''Marie Jeanne''"
    by (simp add: prenom_of_def)
  have f: "strip (replace ''Marie Jeanne'' ''Dupont'' []) = ''Marie Jeanne''"
    by (simp add: str_eval)
  have d1: "convert_date_passport ''850101'' = Inr ''01/01/1985''"
    by (simp add: convert_date_passport_eq dmy_of_yymmdd_def yy_of_def century_def
        str_of_int_def char_simps)
  have d2: "convert_date_passport [] = Inr []"
    by (simp add: convert_date_passport_def)
  have g: "raw_get ?raw ''date_of_birth'' = ''850101''" "raw_get ?raw ''expiration_date'' = []"
    by (simp_all add: raw_get_def)
  note t = first_name_derivation
  note c1 = t [of "''Dupont Marie''" "''Dupont''", THEN conjunct1]
  note c2 = t [of "''Marie''" "''Durand''", THEN conjunct2, THEN conjunct1]
  note c2b = t [of "''Marie''" "[]", THEN conjunct2, THEN conjunct1]
  note c3 = t [of "[]" "''Dupont''", THEN conjunct2, THEN conjunct2, THEN conjunct1]
  note c5 = t [of "''Marie Jeanne''" "''Dupont''" ?raw france_only "''01/01/1985''" "[]",
      THEN conjunct2, THEN conjunct2, THEN conjunct2, THEN conjunct2, THEN conjunct1,
      unfolded g sn nm]
  have h1: "prenom_of ''Dupont'' ''Dupont Marie'' = ''Marie''"
    using c1 ex by (simp add: r1)
  have h2: "prenom_of ''Durand'' ''Marie'' = ''Marie''"
    using c2 nex by simp
  have h2b: "prenom_of [] ''Marie'' = ''Marie''"
    using c2b by simp
  have h3: "prenom_of ''Dupont'' [] = non_precise"
    using c3 by simp
  have fn: "first_name_of ''Dupont'' ''Marie Jeanne'' = ''Marie Jeanne''"
    by (simp add: first_name_of_def f)
  from c5 d1 d2 have h5:
    "(\<exists>fs. extract_mrz_info france_only (Some ?raw) = Inr fs \<and>
         map_of fs key_prenom = Some ''Marie Jeanne'') \<and>
     (\<exists>fs. extract_mrz_info_passport france_only (Some ?raw) = Inr fs \<and>
         map_of fs ''First Name'' = Some ''Marie Jeanne'')"
    by (simp only: p fn simp_thms)
  from ex h1 nex h2 h2b h3 d1 d2 h5 show ?thesis by (intro conjI) (elim conjE, assumption)+
qed

section \<open>Field sets: auxiliary facts\<close>

lemma update_new: "k \<notin> fst ` set d \<Longrightarrow> AList.update k v d = d @ [(k, v)]"
  by (induction d) auto

lemma dict_update_distinct:
  "distinct (map fst (d @ other)) \<Longrightarrow> dict_update d other = d @ other"
proof (induction other arbitrary: d)
  case Nil
  then show ?case by (simp add: dict_update_def)
next
  case (Cons kv other)
  obtain k v where kv: "kv = (k, v)" by (cases kv)
  from Cons.prems have "k \<notin> fst ` set d" by (auto simp: kv)
  then have u: "AList.update k v d = d @ [(k, v)]" by (rule update_new)
  from Cons.prems have "distinct (map fst ((d @ [(k, v)]) @ other))" by (simp add: kv)
  then have "dict_update (d @ [(k, v)]) other = (d @ [(k, v)]) @ other" by (rule Cons.IH)
  then show ?case by (simp add: dict_update_def kv u)
qed

lemma map_of_dict_update:
  "distinct (map fst other) \<Longrightarrow>
   map_of (dict_update d other) k =
     (case map_of other k of Some v \<Rightarrow> Some v | None \<Rightarrow> map_of d k)"
proof (induction other arbitrary: d)
  case Nil
  then show ?case by (simp add: dict_update_def)
next
  case (Cons kv other)
  obtain k' v' where kv: "kv = (k', v')" by (cases kv)
  from Cons.prems have nin: "map_of other k' = None" and d: "distinct (map fst other)"
    by (auto simp: kv map_of_eq_None_iff)
  have "map_of (dict_update (AList.update k' v' d) other) k =
          (case map_of other k of Some v \<Rightarrow> Some v | None \<Rightarrow> map_of (AList.update k' v' d) k)"
    using d by (rule Cons.IH)
  then show ?case
    using nin by (auto simp: dict_update_def kv update_conv' split: option.splits)
qed

section \<open>The height pattern: auxiliary facts\<close>

lemma in_cls_sepc [simp]: "in_cls False [S, Lit (CHR '':'')] = is_sepc"
  by (rule ext) (auto simp: in_cls_def is_sepc_def)

lemma in_cls_numc [simp]: "in_cls False [D, Lit (CHR ''.''), Lit (CHR '','')] = is_numc"
  by (rule ext) (auto simp: in_cls_def is_numc_def)

lemma sepc_not_numc: "is_sepc c \<Longrightarrow> \<not> is_numc c"
  by (auto simp: is_sepc_def is_numc_def isspace_def isdigit_def ord_def)

lemma str_rest_eq:
  "str_rest False l s = (if prefix l s then Some (drop (length l) s) else None)"
proof (induction l arbitrary: s)
  case Nil
  show ?case by simp
next
  case (Cons p ps)
  then show ?case by (cases s) (simp_all add: chr_eq_def)
qed

lemma star_seq:
  assumes "\<And>c cs. P c \<Longrightarrow> f (c # cs) = []"
  shows "concat (map f (star_rests P s)) = f (dropWhile P s)"
  by (induction s) (simp_all add: assms)

lemma star_rests_nonempty [simp]: "star_rests P s \<noteq> []"
  by (cases s) simp_all

lemma star_rests_hd: "hd (star_rests P s) = dropWhile P s"
  by (induction s) simp_all

lemma ms_run:
  "ms False (Seq (Grp (Plus [D, Lit (CHR ''.''), Lit (CHR '','')])) Eps) u =
     (case u of [] \<Rightarrow> []
      | c # t \<Rightarrow> if is_numc c
                 then map (\<lambda>x. ([take (length u - length x) u], x)) (star_rests is_numc t)
                 else [])"
  by (cases u) (simp_all add: comp_def)

lemma length_takeWhile_dropWhile:
  "length xs - length (dropWhile P xs) = length (takeWhile P xs)"
  by (induction xs) (simp_all add: Suc_diff_le length_dropWhile_le)

lemma ms_run_none:
  "takeWhile is_numc u = [] \<Longrightarrow>
   ms False (Seq (Grp (Plus [D, Lit (CHR ''.''), Lit (CHR '','')])) Eps) u = []"
  by (cases u) (simp_all split: if_splits)

lemma ms_run_first:
  assumes "takeWhile is_numc u \<noteq> []"
  shows "\<exists>rest. ms False (Seq (Grp (Plus [D, Lit (CHR ''.''), Lit (CHR '','')])) Eps) u =
           ([takeWhile is_numc u], dropWhile is_numc u) # rest"
proof -
  from assms obtain c t where u: "u = c # t" and c: "is_numc c"
    by (cases u) (auto split: if_splits)
  obtain rest where r: "star_rests is_numc t = dropWhile is_numc t # rest"
    using star_rests_hd [of is_numc t] star_rests_nonempty [of is_numc t]
    by (cases "star_rests is_numc t") auto
  have "Suc (length t) - length (dropWhile is_numc t) = Suc (length (takeWhile is_numc t))"
    using length_takeWhile_dropWhile [of t is_numc] length_dropWhile_le [of is_numc t]
    by arith
  then have "take (Suc (length t) - length (dropWhile is_numc t)) (c # t) =
      c # takeWhile is_numc t"
    by (simp add: takeWhile_eq_take [symmetric])
  then show ?thesis
    using c by (simp add: u comp_def r)
qed

lemma label_exclusive:
  "prefix ''Taille'' s \<Longrightarrow> \<not> prefix ''T.'' s"
  "prefix ''Taille'' s \<Longrightarrow> \<not> prefix ''taille'' s"
  "prefix ''T.'' s \<Longrightarrow> \<not> prefix ''taille'' s"
  by (auto simp: prefix_def)

lemma ms_label:
  "ms False (Alt (Str ''Taille'') (Alt (Str ''T.'') (Str ''taille''))) s =
     (case label_rest s of None \<Rightarrow> [] | Some t \<Rightarrow> [([], t)])"
  using label_exclusive [of s]
  by (auto simp add: label_rest_def str_rest_eq eval_nat_numeral simp del: Cons_prefix_Cons)

lemma ms_taille:
  "ms False rx_taille s =
     (case label_rest s of
        None \<Rightarrow> []
      | Some t \<Rightarrow>
          ms False (Seq (Grp (Plus [D, Lit (CHR ''.''), Lit (CHR '','')])) Eps)
            (dropWhile is_sepc t))"
proof -
  let ?f = "ms False (Seq (Grp (Plus [D, Lit (CHR ''.''), Lit (CHR '','')])) Eps)"
  have stop: "?f (c # cs) = []" if "is_sepc c" for c cs
    using sepc_not_numc [OF that] by simp
  have "ms False (Seq (Star [S, Lit (CHR '':'')]) (Seq (Grp (Plus [D, Lit (CHR ''.''), Lit (CHR '','')])) Eps)) t
        = ?f (dropWhile is_sepc t)" for t
  proof -
    have "ms False (Seq (Star [S, Lit (CHR '':'')]) (Seq (Grp (Plus [D, Lit (CHR ''.''), Lit (CHR '','')])) Eps)) t
          = concat (map ?f (star_rests is_sepc t))"
      by (simp add: comp_def del: ms.simps(9) add: ms.simps(9) [of False "Star [S, Lit (CHR '':'')]"])
    also have "\<dots> = ?f (dropWhile is_sepc t)"
      by (rule star_seq) (rule stop)
    finally show ?thesis .
  qed
  note inner = this
  show ?thesis
    unfolding rx_taille_def seq.simps
    by (subst ms.simps(9)) (simp only: ms_label inner split: option.split, simp)
qed

lemma ms_taille_none:
  assumes "taille_run s = None"
  shows "ms False rx_taille s = []"
proof (cases "label_rest s")
  case None
  then show ?thesis by (simp only: ms_taille option.case)
next
  case (Some t)
  with assms have "takeWhile is_numc (dropWhile is_sepc t) = []"
    by (simp add: taille_run_def Let_def split: if_splits)
  then show ?thesis by (simp only: ms_taille Some option.case ms_run_none)
qed

lemma ms_taille_first:
  assumes "taille_run s = Some run"
  shows "\<exists>t rest. ms False rx_taille s = ([run], t) # rest"
proof -
  from assms obtain t where l: "label_rest s = Some t"
    and run: "run = takeWhile is_numc (dropWhile is_sepc t)" and ne: "run \<noteq> []"
    by (auto simp: taille_run_def Let_def split: option.splits if_splits)
  from ne have "takeWhile is_numc (dropWhile is_sepc t) \<noteq> []" by (simp add: run)
  from ms_run_first [OF this] show ?thesis
    by (auto simp only: ms_taille l option.case run)
qed

lemma search_taille:
  "re_search False rx_taille s = map_option (\<lambda>run. [run]) (first_taille_run s)"
proof (induction s)
  case Nil
  have "taille_run [] = None" by (simp add: taille_run_def label_rest_def)
  then show ?case by (simp add: ms_taille_none)
next
  case (Cons c cs)
  show ?case
  proof (cases "taille_run (c # cs)")
    case None
    then show ?thesis using Cons.IH by (simp add: ms_taille_none)
  next
    case (Some run)
    from ms_taille_first [OF this] obtain t rest
      where "ms False rx_taille (c # cs) = ([run], t) # rest" by blast
    then show ?thesis using Some by simp
  qed
qed

lemma replace_char:
  "replace_from [a] [b] s = map (\<lambda>c. if c = a then b else c) s"
proof (induction s)
  case Nil
  show ?case by (subst replace_from.simps) simp
next
  case (Cons c cs)
  have "replace_from [a] [b] (c # cs) =
          (if c = a then b # replace_from [a] [b] cs else c # replace_from [a] [b] cs)"
    by (subst replace_from.simps) simp
  then show ?case by (simp add: Cons.IH)
qed

lemma numc_dot_not_space: "is_numc c \<Longrightarrow> \<not> isspace (comma_to_dot c)"
  by (auto simp: is_numc_def comma_to_dot_def isspace_def isdigit_def ord_def)

lemma taille_run_numc: "taille_run s = Some run \<Longrightarrow> run \<noteq> [] \<and> list_all is_numc run"
  by (auto simp: taille_run_def Let_def list_all_iff split: option.splits if_splits
      dest: set_takeWhileD)

lemma first_taille_run_numc:
  "first_taille_run s = Some run \<Longrightarrow> run \<noteq> [] \<and> list_all is_numc run"
  by (induction s) (auto split: option.splits dest: taille_run_numc)

lemma extract_taille_eq: "extract_taille ocr_text = Inr (height_of ocr_text)"
proof (cases "first_taille_run ocr_text")
  case None
  then show ?thesis
    by (simp add: extract_taille_def search_taille height_of_def)
next
  case (Some run)
  then have ne: "run \<noteq> []" and all: "list_all is_numc run"
    using first_taille_run_numc by blast+
  let ?r = "map comma_to_dot run"
  have r: "replace run '','' ''.'' = ?r"
    by (simp add: replace_def replace_char comma_to_dot_def)
  have "\<not> isspace (hd ?r)" "\<not> isspace (last ?r)"
    using ne all by (auto simp: hd_map last_map list_all_iff numc_dot_not_space)
  then have "strip ?r = ?r" using ne by (intro strip_id) simp_all
  then show ?thesis
    using Some by (simp add: extract_taille_def search_taille height_of_def group_def r)
qed

section \<open>The text field extractor: auxiliary facts\<close>

lemma ms_groups:
  "groups_ok r \<Longrightarrow> (g, t) \<in> set (ms ic r s) \<Longrightarrow> length g = ngroups r"
proof (induction r arbitrary: s g t)
  case (Seq r1 r2)
  from Seq.prems(2) obtain g1 s1 g2 where
    a: "(g1, s1) \<in> set (ms ic r1 s)" and b: "(g2, t) \<in> set (ms ic r2 s1)" and g: "g = g1 @ g2"
    by auto
  from Seq.prems(1) have "groups_ok r1" "groups_ok r2" by simp_all
  with a b Seq.IH have "length g1 = ngroups r1" "length g2 = ngroups r2" by blast+
  then show ?case by (simp add: g)
next
  case (Grp r)
  from Grp.prems(2) obtain g' where a: "(g', t) \<in> set (ms ic r s)"
    and g: "g = take (length s - length t) s # g'"
    by auto
  from Grp.prems(1) a Grp.IH have "length g' = ngroups r" by simp
  then show ?case by (simp add: g)
next
  case (Opt r)
  then show ?case by auto
next
  case (Alt r1 r2)
  then show ?case by auto
qed (auto split: list.splits option.splits if_splits)

lemma re_search_way:
  "re_search ic r s = Some g \<Longrightarrow> \<exists>u t. (g, t) \<in> set (ms ic r u)"
proof (induction s)
  case Nil
  then obtain t ws where "ms ic r [] = (g, t) # ws"
    by (cases "ms ic r []") (auto split: prod.splits)
  then have "(g, t) \<in> set (ms ic r [])" by simp
  then show ?case by blast
next
  case (Cons c cs)
  show ?case
  proof (cases "ms ic r (c # cs)")
    case Nil
    with Cons show ?thesis by simp
  next
    case (Cons w ws)
    obtain g' t' where w: "w = (g', t')" by (cases w)
    with Cons Cons.prems have "g = g'" by simp
    then have "(g, t') \<in> set (ms ic r (c # cs))" using Cons w by simp
    then show ?thesis by blast
  qed
qed

lemma re_search_groups:
  "groups_ok r \<Longrightarrow> re_search ic r s = Some g \<Longrightarrow> length g = ngroups r"
  using re_search_way ms_groups by blast

lemma group_one: "length g = Suc 0 \<Longrightarrow> group g (Suc 0) = Inr (hd g)"
  by (cases g) (simp_all add: group_def)

lemma group1_one: "length g = Suc 0 \<Longrightarrow> group1 (Some g) = Some (hd g)"
  by (cases g) (simp_all add: group1_def)

lemma set_if_match_one:
  assumes "groups_ok r" "ngroups r = 1"
  shows "set_if_match info key (re_search ic r s) (\<lambda>m. bind_err (group m 1) (\<lambda>g. Inr (h g))) =
           Inr (put key (map_option h (group1 (re_search ic r s))) info)"
proof (cases "re_search ic r s")
  case None
  then show ?thesis by (simp add: set_if_match_def group1_def)
next
  case (Some g)
  with assms have "length g = 1" using re_search_groups by fastforce
  then show ?thesis
    by (simp add: Some set_if_match_def group_one group1_one)
qed

lemma groups_rx:
  "groups_ok rx_id \<and> ngroups rx_id = 1"
  "groups_ok rx_nat \<and> ngroups rx_nat = 1"
  "groups_ok rx_nom \<and> ngroups rx_nom = 1"
  "groups_ok rx_prenom \<and> ngroups rx_prenom = 1"
  "groups_ok rx_sexe \<and> ngroups rx_sexe = 1"
  "groups_ok rx_dob \<and> ngroups rx_dob = 1"
  by (simp_all add: rx_id_def rx_nat_def rx_nom_def rx_prenom_def rx_sexe_def rx_dob_def)

lemma convert_date_normalized: "convert_date s = Inr (normalized s)"
  by (simp add: convert_date_eq normalized_def)

lemma set_if_match_id:
  assumes "groups_ok r" "ngroups r = 1"
  shows "set_if_match info key (re_search ic r s) (\<lambda>m. group m 1) =
           Inr (put key (group1 (re_search ic r s)) info)"
proof (cases "re_search ic r s")
  case None
  then show ?thesis by (simp add: set_if_match_def group1_def)
next
  case (Some g)
  with assms have "length g = 1" using re_search_groups by fastforce
  then show ?thesis
    by (simp add: Some set_if_match_def group_one group1_one)
qed

lemma extract_info_eq: "extract_info_from_ocr_text t = Inr (ocr_fields t)"
proof -
  have cd: "convert_date = (\<lambda>s. Inr (normalized s))"
    by (rule ext) (rule convert_date_normalized)
  show ?thesis
    unfolding extract_info_from_ocr_text_def cd
    by (simp only: set_if_match_id set_if_match_one groups_rx bind_err.simps
        extract_taille_eq ocr_fields_def)
qed

lemma distinct_put: "distinct (map fst d) \<Longrightarrow> distinct (map fst (put k v d))"
  by (cases v) (simp_all add: distinct_update)

lemma map_of_put:
  "map_of (put k v d) k' = (if k' = k \<and> v \<noteq> None then v else map_of d k')"
  by (cases v) (simp_all add: update_conv')

lemma keys_distinct:
  "distinct [key_cni, key_nationalite, key_nom, key_prenom, key_sexe, key_ne_le, key_taille]"
  by (simp add: key_cni_def key_nationalite_def key_nom_def key_prenom_def key_sexe_def
      key_ne_le_def key_taille_def)

lemma distinct_ocr_fields: "distinct (map fst (ocr_fields t))"
  by (simp add: ocr_fields_def distinct_update distinct_put)

lemma ocr_fields_taille: "map_of (ocr_fields t) key_taille = Some (height_of t)"
  by (simp add: ocr_fields_def update_conv')

lemma ocr_fields_lookup:
  "map_of (ocr_fields t) key_cni = group1 (re_search True rx_id t)"
  "map_of (ocr_fields t) key_nationalite = map_option title (group1 (re_search True rx_nat t))"
  "map_of (ocr_fields t) key_nom = map_option title (group1 (re_search True rx_nom t))"
  "map_of (ocr_fields t) key_prenom = map_option title (group1 (re_search True rx_prenom t))"
  "map_of (ocr_fields t) key_sexe = map_option upper (group1 (re_search True rx_sexe t))"
  "map_of (ocr_fields t) key_ne_le = map_option normalized (group1 (re_search True rx_dob t))"
  using keys_distinct
  by (auto simp: ocr_fields_def update_conv' map_of_put)

section \<open>The height\<close>

text \<open>
  Claim C6 says that a label \<open>Taille\<close> or \<open>T.\<close> followed by a run of digits, commas and
  dots gives that run with dots for commas. The text \<open>''TAILLE 1,80''\<close> holds the
  label in upper case and the run \<open>1,80\<close>, so the claim gives \<open>''1.80''\<close>. The code gives
  the placeholder there, and also at \<open>''t. 1,80''\<close>: the pattern of \<^const>\<open>extract_taille\<close>
  is the only one searched without \<^verbatim>\<open>re.IGNORECASE\<close>. In the same upper-case text
  the pattern for \<open>Sexe\<close> finds its field.
\<close>

theorem height_label_case:
  "extract_taille ''TAILLE 1,80'' = Inr non_precise \<and>
   extract_taille ''t. 1,80'' = Inr non_precise \<and>
   extract_taille ''Taille 1,80'' = Inr ''1.80'' \<and>
   extract_info_from_ocr_text ''SEXE: F TAILLE 1,80'' =
     Inr [(key_sexe, ''F''), (key_taille, non_precise)]"
  by code_simp

text \<open>What the code computes on every text: \<^const>\<open>extract_taille\<close> returns the
  result of the direct scan, the text field extractor always returns a field set with
  the label \<open>Taille\<close>, and each other label is absent when its pattern finds nothing.\<close>

lemma extract_taille_scan:
  "extract_taille t =
     Inr (case first_taille_run t of Some run \<Rightarrow> map comma_to_dot run | None \<Rightarrow> non_precise) \<and>
   (\<forall>run. first_taille_run t = Some run \<longrightarrow> run \<noteq> [] \<and> list_all is_numc run) \<and>
   (\<exists>fs. extract_info_from_ocr_text t = Inr fs \<and>
      map_of fs key_taille =
        Some (case first_taille_run t of Some run \<Rightarrow> map comma_to_dot run | None \<Rightarrow> non_precise) \<and>
      (re_search True rx_id t = None \<longrightarrow> map_of fs key_cni = None) \<and>
      (re_search True rx_nat t = None \<longrightarrow> map_of fs key_nationalite = None) \<and>
      (re_search True rx_nom t = None \<longrightarrow> map_of fs key_nom = None) \<and>
      (re_search True rx_prenom t = None \<longrightarrow> map_of fs key_prenom = None) \<and>
      (re_search True rx_sexe t = None \<longrightarrow> map_of fs key_sexe = None) \<and>
      (re_search True rx_dob t = None \<longrightarrow> map_of fs key_ne_le = None))"
proof -
  have h: "height_of t =
      (case first_taille_run t of Some run \<Rightarrow> map comma_to_dot run | None \<Rightarrow> non_precise)"
    by (simp add: height_of_def)
  have a: "extract_taille t = Inr (height_of t)" by (rule extract_taille_eq)
  have b: "\<forall>run. first_taille_run t = Some run \<longrightarrow> run \<noteq> [] \<and> list_all is_numc run"
    using first_taille_run_numc by blast
  have c: "extract_info_from_ocr_text t = Inr (ocr_fields t)" by (rule extract_info_eq)
  have d: "map_of (ocr_fields t) key_taille = Some (height_of t)" by (rule ocr_fields_taille)
  have e: "re_search True rx_id t = None \<longrightarrow> map_of (ocr_fields t) key_cni = None"
    "re_search True rx_nat t = None \<longrightarrow> map_of (ocr_fields t) key_nationalite = None"
    "re_search True rx_nom t = None \<longrightarrow> map_of (ocr_fields t) key_nom = None"
    "re_search True rx_prenom t = None \<longrightarrow> map_of (ocr_fields t) key_prenom = None"
    "re_search True rx_sexe t = None \<longrightarrow> map_of (ocr_fields t) key_sexe = None"
    "re_search True rx_dob t = None \<longrightarrow> map_of (ocr_fields t) key_ne_le = None"
    by (simp_all add: ocr_fields_lookup group1_def)
  show ?thesis
  proof (intro conjI)
    show "extract_taille t =
      Inr (case first_taille_run t of Some run \<Rightarrow> map comma_to_dot run | None \<Rightarrow> non_precise)"
      using a unfolding h .
    show "\<forall>run. first_taille_run t = Some run \<longrightarrow> run \<noteq> [] \<and> list_all is_numc run"
      by (rule b)
    show "\<exists>fs. extract_info_from_ocr_text t = Inr fs \<and>
      map_of fs key_taille =
        Some (case first_taille_run t of Some run \<Rightarrow> map comma_to_dot run | None \<Rightarrow> non_precise) \<and>
      (re_search True rx_id t = None \<longrightarrow> map_of fs key_cni = None) \<and>
      (re_search True rx_nat t = None \<longrightarrow> map_of fs key_nationalite = None) \<and>
      (re_search True rx_nom t = None \<longrightarrow> map_of fs key_nom = None) \<and>
      (re_search True rx_prenom t = None \<longrightarrow> map_of fs key_prenom = None) \<and>
      (re_search True rx_sexe t = None \<longrightarrow> map_of fs key_sexe = None) \<and>
      (re_search True rx_dob t = None \<longrightarrow> map_of fs key_ne_le = None)"
    proof (rule exI [of _ "ocr_fields t"], intro conjI)
      show "extract_info_from_ocr_text t = Inr (ocr_fields t)" by (rule c)
      show "map_of (ocr_fields t) key_taille =
        Some (case first_taille_run t of Some run \<Rightarrow> map comma_to_dot run | None \<Rightarrow> non_precise)"
        using d unfolding h .
    qed (rule e)+
  qed
qed

section \<open>The field merger: claim\<close>

lemma distinct_mrz_info:
  "extract_mrz_info countries_get mrz = Inr fs \<Longrightarrow> distinct (map fst fs)"
proof (cases mrz)
  case None
  assume "extract_mrz_info countries_get mrz = Inr fs"
  with None show ?thesis by (simp add: extract_mrz_info_def)
next
  case (Some raw)
  assume a: "extract_mrz_info countries_get mrz = Inr fs"
  obtain dob where dob: "convert_date (strip (replace (raw_get raw ''date_of_birth'') ''<'' [])) = Inr dob"
    using convert_date_total by blast
  obtain ex where ex: "convert_date (strip (replace (raw_get raw ''expiration_date'') ''<'' [])) = Inr ex"
    using convert_date_total by blast
  from a have "map fst fs =
      [''MRZ brut'', ''Pays de d'' @ [CHR 0xE9] @ ''livrance'', key_cni, key_nom, key_prenom,
       key_nationalite, key_ne_le, ''Date d'expiration'', key_sexe]"
    by (auto simp: Some extract_mrz_info_def Let_def dob ex)
  then show ?thesis
    by (simp add: key_cni_def key_nationalite_def key_nom_def key_prenom_def key_sexe_def
      key_ne_le_def)
qed

lemma final_info_eq:
  assumes "distinct (map fst mrz_info)" "distinct (map fst ocr_info)"
    and "map_of ocr_info key_taille = Some taille"
  shows "final_info mrz_info ocr_info taille = dict_update mrz_info ocr_info"
proof -
  have "dict_update [] mrz_info = mrz_info"
    using assms(1) dict_update_distinct [of "[]" mrz_info] by simp
  then have start: "(if mrz_info \<noteq> [] then dict_update [] mrz_info else []) = mrz_info"
    by simp
  have "map_of (dict_update mrz_info ocr_info) key_taille = Some taille"
    using assms(2,3) by (simp add: map_of_dict_update)
  then have "AList.update key_taille taille (dict_update mrz_info ocr_info) =
      dict_update mrz_info ocr_info"
    by (rule update_triv)
  then show ?thesis by (simp add: final_info_def Let_def start)
qed

lemma merger_example_mrz:
  "extract_mrz_info france_only (Some [''surname'' \<mapsto> ''DUPONT'', ''sex'' \<mapsto> ''M'']) =
     Inr [(''MRZ brut'', []), (''Pays de d'' @ [CHR 0xE9] @ ''livrance'', []), (key_cni, []),
          (key_nom, ''Dupont''), (key_prenom, non_precise), (key_nationalite, []),
          (key_ne_le, []), (''Date d'expiration'', []), (key_sexe, ''M'')]"
  by code_simp

lemma merger_example_ocr:
  "extract_info_from_ocr_text ''Sexe: F'' = Inr [(key_sexe, ''F''), (key_taille, non_precise)]"
  by code_simp

text \<open>
  Claim C4. The final field set of the identity card is the field set of the MRZ with
  every entry of the field set of the recognized text stored over it: a label of the
  text takes the value of the text, any other label keeps the value of the MRZ. When
  the decoder returns no record, the field set of the MRZ is empty and the final field
  set is the field set of the text, unchanged.
\<close>

theorem field_merger_overlay:
  "extract_mrz_info countries_get mrz = Inr mrz_info \<Longrightarrow>
   extract_info_from_ocr_text ocr_text = Inr ocr_info \<Longrightarrow>
   id_card_fields countries_get ocr_text mrz = Inr (dict_update mrz_info ocr_info) \<and>
   (\<forall>k. map_of (dict_update mrz_info ocr_info) k =
      (case map_of ocr_info k of Some v \<Rightarrow> Some v | None \<Rightarrow> map_of mrz_info k)) \<and>
   (mrz = None \<longrightarrow> mrz_info = [] \<and> dict_update mrz_info ocr_info = ocr_info)"
proof -
  assume m: "extract_mrz_info countries_get mrz = Inr mrz_info"
    and o: "extract_info_from_ocr_text ocr_text = Inr ocr_info"
  from o have oi: "ocr_info = ocr_fields ocr_text" by (simp add: extract_info_eq)
  have dm: "distinct (map fst mrz_info)" using m by (rule distinct_mrz_info)
  have d: "distinct (map fst ocr_info)" by (simp add: oi distinct_ocr_fields)
  have t: "map_of ocr_info key_taille = Some (height_of ocr_text)"
    by (simp add: oi ocr_fields_taille)
  have f: "final_info mrz_info ocr_info (height_of ocr_text) = dict_update mrz_info ocr_info"
    using dm d t by (rule final_info_eq)
  have 1: "id_card_fields countries_get ocr_text mrz = Inr (dict_update mrz_info ocr_info)"
    by (simp add: id_card_fields_def m o extract_taille_eq f)
  have 2: "\<forall>k. map_of (dict_update mrz_info ocr_info) k =
      (case map_of ocr_info k of Some v \<Rightarrow> Some v | None \<Rightarrow> map_of mrz_info k)"
    using d by (simp add: map_of_dict_update)
  have 3: "mrz = None \<longrightarrow> mrz_info = [] \<and> dict_update mrz_info ocr_info = ocr_info"
  proof
    assume "mrz = None"
    with m have e: "mrz_info = []" by (simp add: extract_mrz_info_def)
    have "dict_update [] ocr_info = ocr_info"
      using d dict_update_distinct [of "[]" ocr_info] by simp
    with e show "mrz_info = [] \<and> dict_update mrz_info ocr_info = ocr_info" by simp
  qed
  from 1 2 3 show ?thesis by (intro conjI)
qed

theorem field_merger_overlay_witness:
  "\<exists>mrz_info ocr_info final.
     extract_mrz_info france_only (Some [''surname'' \<mapsto> ''DUPONT'', ''sex'' \<mapsto> ''M'']) =
       Inr mrz_info \<and>
     extract_info_from_ocr_text ''Sexe: F'' = Inr ocr_info \<and>
     id_card_fields france_only ''Sexe: F'' (Some [''surname'' \<mapsto> ''DUPONT'', ''sex'' \<mapsto> ''M'']) =
       Inr final \<and>
     map_of mrz_info key_sexe = Some ''M'' \<and> map_of ocr_info key_sexe = Some ''F'' \<and>
     map_of final key_sexe = Some ''F'' \<and> map_of final key_nom = Some ''Dupont'' \<and>
     map_of final key_taille = Some non_precise \<and>
     extract_mrz_info france_only None = Inr [] \<and>
     id_card_fields france_only ''Sexe: F'' None = Inr ocr_info"
proof -
  let ?m = "[(''MRZ brut'', []), (''Pays de d'' @ [CHR 0xE9] @ ''livrance'', []), (key_cni, []),
          (key_nom, ''Dupont''), (key_prenom, non_precise), (key_nationalite, []),
          (key_ne_le, []), (''Date d'expiration'', []), (key_sexe, ''M'')]"
  let ?o = "[(key_sexe, ''F''), (key_taille, non_precise)]"
  have n: "extract_mrz_info france_only None = Inr []" by (simp add: extract_mrz_info_def)
  note a = field_merger_overlay [OF merger_example_mrz merger_example_ocr]
  note b = field_merger_overlay [OF n merger_example_ocr]
  have k: "map_of ?m key_sexe = Some ''M''" "map_of ?o key_sexe = Some ''F''"
    "map_of ?m key_nom = Some ''Dupont''" "map_of ?o key_nom = None"
    "map_of ?o key_taille = Some non_precise"
    by (simp_all add: key_cni_def key_nationalite_def key_nom_def key_prenom_def key_sexe_def
      key_ne_le_def key_taille_def)
  from a have "map_of (dict_update ?m ?o) key_sexe = Some ''F''"
    "map_of (dict_update ?m ?o) key_nom = Some ''Dupont''"
    "map_of (dict_update ?m ?o) key_taille = Some non_precise"
    by (simp_all only: k option.case)
  with a b merger_example_mrz merger_example_ocr n k show ?thesis
    by (intro exI [of _ ?m] exI [of _ ?o] exI [of _ "dict_update ?m ?o"]) simp
qed

end
